theory Spec2Isabelle
  imports Complex_Main
begin

section \<open>Calendar dates and JavaScript \<open>Date\<close> values\<close>

text \<open>
  The store keeps calendar dates as strings \<^verbatim>\<open>YYYY-MM-DD\<close>. Such a string is represented
  by its day number, the count of days since 1970-01-01; \<open>localeCompare\<close> on two such
  strings is the order of the day numbers. A JavaScript \<open>Date\<close> is an instant, the
  number of milliseconds since the epoch in UTC. The host's time zone enters as \<open>tz\<close>,
  its offset in minutes east of UTC, taken as constant (no daylight-saving change).
\<close>

type_synonym date = int
type_synonym instant = int

definition msPerDay :: int where
  "msPerDay = 1000 * 60 * 60 * 24"

text \<open>\<^verbatim>\<open>new Date(s + 'T00:00:00')\<close>: a date-time without offset is local time.\<close>

definition Date_local :: "int \<Rightarrow> date \<Rightarrow> instant" where
  "Date_local tz d = d * msPerDay - tz * 60000"

text \<open>\<^verbatim>\<open>new Date(s)\<close> for a date-only string: midnight UTC.\<close>

definition Date_utc :: "date \<Rightarrow> instant" where
  "Date_utc d = d * msPerDay"

text \<open>\<^verbatim>\<open>t.setDate(t.getDate() + n)\<close>: \<open>n\<close> local calendar days later, same local time.\<close>

definition setDate_plus :: "instant \<Rightarrow> int \<Rightarrow> instant" where
  "setDate_plus t n = t + n * msPerDay"

text \<open>\<^verbatim>\<open>t.toISOString().split('T')[0]\<close>: the calendar date of the instant in UTC.\<close>

definition toISODate :: "instant \<Rightarrow> date" where
  "toISODate t = t div msPerDay"

text \<open>\<^verbatim>\<open>t.getDay()\<close>: the local weekday, 0 = Sunday; 1970-01-01 was a Thursday.\<close>

definition getDay :: "int \<Rightarrow> instant \<Rightarrow> int" where
  "getDay tz t = ((t + tz * 60000) div msPerDay + 4) mod 7"

text \<open>\<^verbatim>\<open>Math.round(a / b)\<close> for integers \<open>a\<close> and \<open>b > 0\<close>: halves round up.\<close>

definition Math_round_div :: "int \<Rightarrow> int \<Rightarrow> int" where
  "Math_round_div a b = (2 * a + b) div (2 * b)"

text \<open>
  The day number of the date \<open>y-m-d\<close> of the proleptic Gregorian calendar, used to
  write the dates of scenarios.
\<close>

definition ymd :: "int \<Rightarrow> int \<Rightarrow> int \<Rightarrow> date" where
  "ymd y m d =
     (let y' = (if m \<le> 2 then y - 1 else y);
          era = y' div 400;
          yoe = y' - era * 400;
          mp = (m + 9) mod 12;
          doy = (153 * mp + 2) div 5 + d - 1;
          doe = yoe * 365 + yoe div 4 - yoe div 100 + doy
      in era * 146097 + doe - 719468)"


section \<open>The data model (\<open>TimelineDataModel\<close>)\<close>

text \<open>
  Ids are the decimal strings \<open>String(nextId++)\<close>, represented by their numeric value.
  The \<open>type\<close> tag of an item is its record type: \<open>data.timeline.items\<close> holds blocks,
  \<open>data.timeline.annotations\<close> holds annotations. Every block has its \<open>startDate\<close> and
  every annotation its \<open>date\<close>, as \<open>addBlock\<close>, \<open>addAnnotation\<close> and the migration of
  \<open>fromJSON\<close> leave them, so the fallbacks \<open>item.startDate || ...\<close> for a legacy
  \<open>startDay\<close> are never taken.
\<close>

record block =
  blk_id :: nat
  startDate :: date
  duration :: int
  label :: string
  row :: int
  badge :: string

record annotation =
  ann_id :: nat
  ann_date :: date
  ann_row :: int
  ann_text :: string

text \<open>
  The fields of \<open>this.data\<close>, with \<open>nextId\<close>, and \<open>notifications\<close> counting the calls of
  \<open>_notifyChange\<close> (each call runs every registered listener once).
\<close>

record TimelineDataModel =
  items :: "block list"
  annotations :: "annotation list"
  data_zoom :: real
  scrollPosition :: real
  timeline_startDate :: date
  lastBadgeValue :: string
  offTimeline_blocks :: "block list"
  nextId :: nat
  notifications :: nat

text \<open>An argument that is either a relative day (a number) or an absolute date (a string).\<close>

datatype dayOrDate = RelativeDay int | AbsoluteDate date

definition notifyChange :: "TimelineDataModel \<Rightarrow> TimelineDataModel" where
  "notifyChange s = s\<lparr>notifications := notifications s + 1\<rparr>"

definition generateId :: "TimelineDataModel \<Rightarrow> nat \<times> TimelineDataModel" where
  "generateId s = (nextId s, s\<lparr>nextId := nextId s + 1\<rparr>)"

definition getStartDate :: "int \<Rightarrow> TimelineDataModel \<Rightarrow> instant" where
  "getStartDate tz s = Date_local tz (timeline_startDate s)"

definition getRelativeDayFromDate :: "int \<Rightarrow> TimelineDataModel \<Rightarrow> date \<Rightarrow> int" where
  "getRelativeDayFromDate tz s absoluteDate =
     (let startDate = getStartDate tz s;
          date = Date_utc absoluteDate;
          diffTime = date - startDate
      in Math_round_div diffTime msPerDay)"

definition getDateFromRelativeDay :: "int \<Rightarrow> TimelineDataModel \<Rightarrow> int \<Rightarrow> date" where
  "getDateFromRelativeDay tz s relativeDay =
     toISODate (setDate_plus (getStartDate tz s) relativeDay)"

text \<open>\<open>Array.prototype.sort\<close> is stable; the comparator orders blocks by \<open>startDate\<close>.\<close>

definition sortTimelineItems :: "TimelineDataModel \<Rightarrow> TimelineDataModel" where
  "sortTimelineItems s = s\<lparr>items := sort_key startDate (items s)\<rparr>"

definition addBlock ::
  "int \<Rightarrow> TimelineDataModel \<Rightarrow> dayOrDate \<Rightarrow> int \<Rightarrow> string \<Rightarrow> int \<Rightarrow> block \<times> TimelineDataModel" where
  "addBlock tz s startDayOrDate dur lbl rw =
     (let startDate = (case startDayOrDate of
                         RelativeDay n \<Rightarrow> toISODate (setDate_plus (getStartDate tz s) n)
                       | AbsoluteDate d \<Rightarrow> d);
          (i, s1) = generateId s;
          b = \<lparr>blk_id = i, startDate = startDate, duration = dur, label = lbl, row = rw,
               badge = (if lastBadgeValue s1 = [] then ''XD'' else lastBadgeValue s1)\<rparr>;
          s2 = s1\<lparr>items := items s1 @ [b]\<rparr>
      in (b, notifyChange (sortTimelineItems s2)))"

definition addAnnotation ::
  "int \<Rightarrow> TimelineDataModel \<Rightarrow> dayOrDate \<Rightarrow> int \<Rightarrow> string \<Rightarrow> annotation \<times> TimelineDataModel" where
  "addAnnotation tz s dayOrDate rw txt =
     (let date = (case dayOrDate of
                    RelativeDay n \<Rightarrow> getDateFromRelativeDay tz s n
                  | AbsoluteDate d \<Rightarrow> d);
          (i, s1) = generateId s;
          a = \<lparr>ann_id = i, ann_date = date, ann_row = rw, ann_text = txt\<rparr>;
          s2 = s1\<lparr>annotations := annotations s1 @ [a]\<rparr>
      in (a, notifyChange s2))"


text \<open>\<open>xs.splice(findIndex(p), 1)\<close>: the first element satisfying \<open>p\<close> is removed.\<close>

fun remove_first :: "('a \<Rightarrow> bool) \<Rightarrow> 'a list \<Rightarrow> 'a list" where
  "remove_first p [] = []"
| "remove_first p (x # xs) = (if p x then xs else x # remove_first p xs)"

text \<open>Mutation of the object that \<open>find\<close> returns: the first match is replaced in place.\<close>

fun update_first :: "('a \<Rightarrow> bool) \<Rightarrow> ('a \<Rightarrow> 'a) \<Rightarrow> 'a list \<Rightarrow> 'a list" where
  "update_first p f [] = []"
| "update_first p f (x # xs) = (if p x then f x # xs else x # update_first p f xs)"


definition removeItem :: "TimelineDataModel \<Rightarrow> nat \<Rightarrow> block option \<times> TimelineDataModel" where
  "removeItem s i =
     (case find (\<lambda>item. blk_id item = i) (items s) of
        Some item \<Rightarrow>
          (Some item, notifyChange (s\<lparr>items := remove_first (\<lambda>item. blk_id item = i) (items s)\<rparr>))
      | None \<Rightarrow> (None, s))"

text \<open>
  The \<open>updates\<close> object of \<open>updateItem\<close>: each field is present or absent. A field that
  the updated item's record does not have (for instance \<open>text\<close> on a block) would become a
  stray property of the JavaScript object and is not kept.
\<close>

record updates =
  u_startDay :: "int option"
  u_startDate :: "date option"
  u_day :: "int option"
  u_date :: "date option"
  u_duration :: "int option"
  u_label :: "string option"
  u_row :: "int option"
  u_badge :: "string option"
  u_text :: "string option"

definition no_updates :: updates where
  "no_updates = \<lparr>u_startDay = None, u_startDate = None, u_day = None, u_date = None,
     u_duration = None, u_label = None, u_row = None, u_badge = None, u_text = None\<rparr>"

definition assign_block :: "updates \<Rightarrow> block \<Rightarrow> block" where
  "assign_block u b =
     b\<lparr>startDate := (case u_startDate u of Some d \<Rightarrow> d | None \<Rightarrow> startDate b),
       duration := (case u_duration u of Some d \<Rightarrow> d | None \<Rightarrow> duration b),
       label := (case u_label u of Some l \<Rightarrow> l | None \<Rightarrow> label b),
       row := (case u_row u of Some r \<Rightarrow> r | None \<Rightarrow> row b),
       badge := (case u_badge u of Some g \<Rightarrow> g | None \<Rightarrow> badge b)\<rparr>"

definition assign_annotation :: "updates \<Rightarrow> annotation \<Rightarrow> annotation" where
  "assign_annotation u a =
     a\<lparr>ann_date := (case u_date u of Some d \<Rightarrow> d | None \<Rightarrow> ann_date a),
       ann_row := (case u_row u of Some r \<Rightarrow> r | None \<Rightarrow> ann_row a),
       ann_text := (case u_text u of Some t \<Rightarrow> t | None \<Rightarrow> ann_text a)\<rparr>"

datatype item = Block block | Annotation annotation

definition updateItem ::
  "int \<Rightarrow> TimelineDataModel \<Rightarrow> nat \<Rightarrow> updates \<Rightarrow> item option \<times> TimelineDataModel" where
  "updateItem tz s i upd =
     (case find (\<lambda>it. blk_id it = i) (items s) of
        Some it \<Rightarrow>
          (let upd1 = (case u_startDay upd of
                         Some sd \<Rightarrow>
                           (if u_startDate upd = None
                            then upd\<lparr>u_startDate := Some (getDateFromRelativeDay tz s sd),
                                     u_startDay := None\<rparr>
                            else upd)
                       | None \<Rightarrow> upd);
               s1 = s\<lparr>items := update_first (\<lambda>it. blk_id it = i) (assign_block upd1) (items s)\<rparr>;
               s2 = (case u_badge upd1 of
                       Some g \<Rightarrow> s1\<lparr>lastBadgeValue := g\<rparr>
                     | None \<Rightarrow> s1)
           in (Some (Block (assign_block upd1 it)), notifyChange (sortTimelineItems s2)))
      | None \<Rightarrow>
          (case find (\<lambda>a. ann_id a = i) (annotations s) of
             Some a \<Rightarrow>
               (let upd1 = (case u_day upd of
                              Some dy \<Rightarrow>
                                (if u_date upd = None
                                 then upd\<lparr>u_date := Some (getDateFromRelativeDay tz s dy),
                                          u_day := None\<rparr>
                                 else upd)
                            | None \<Rightarrow> upd);
                    s1 = s\<lparr>annotations :=
                             update_first (\<lambda>a. ann_id a = i) (assign_annotation upd1) (annotations s)\<rparr>
                in (Some (Annotation (assign_annotation upd1 a)), notifyChange s1))
           | None \<Rightarrow> (None, s)))"

text \<open>
  \<open>xs.splice(i, 0, x)\<close>: a negative index counts from the end, and the index is clamped
  to the length of the array.
\<close>

definition splice_insert :: "'a list \<Rightarrow> int \<Rightarrow> 'a \<Rightarrow> 'a list" where
  "splice_insert xs i x =
     (let n = int (length xs);
          k = nat (if i < 0 then max 0 (n + i) else min i n)
      in take k xs @ [x] @ drop k xs)"

definition reorderItems :: "TimelineDataModel \<Rightarrow> nat \<Rightarrow> int \<Rightarrow> TimelineDataModel" where
  "reorderItems s draggedId targetIndex =
     (case find (\<lambda>it. blk_id it = draggedId) (items s) of
        None \<Rightarrow> s
      | Some it \<Rightarrow>
          s\<lparr>items := splice_insert (remove_first (\<lambda>it. blk_id it = draggedId) (items s))
                        targetIndex it\<rparr>)"

text \<open>\<open>this.data.timeline.items.find(i => i.id === id)\<close>.\<close>

definition findItem :: "TimelineDataModel \<Rightarrow> nat \<Rightarrow> block option" where
  "findItem s i = find (\<lambda>it. blk_id it = i) (items s)"


text \<open>The state of \<open>new TimelineDataModel()\<close> when today's stored date is \<open>today\<close>.\<close>

definition new_TimelineDataModel :: "date \<Rightarrow> TimelineDataModel" where
  "new_TimelineDataModel today =
     \<lparr>items = [], annotations = [], data_zoom = 1, scrollPosition = 0,
      timeline_startDate = today, lastBadgeValue = ''XD'', offTimeline_blocks = [],
      nextId = 1, notifications = 0\<rparr>"


section \<open>The timeline view (\<open>Timeline\<close>): days and pixels\<close>

text \<open>
  The fields of \<open>Timeline\<close> that the geometry and the keyboard moves read: the data
  model, the zoom factor, the ids that have a component in the map \<open>this.items\<close>, and the
  selection. Pixel coordinates are real numbers (the rounding of IEEE doubles is not
  modelled).
\<close>

record Timeline =
  dataModel :: TimelineDataModel
  zoom :: real
  rendered :: "nat list"
  selectedBlockId :: "nat option"
  selectedAnnotationId :: "nat option"

definition getDateForDay :: "int \<Rightarrow> Timeline \<Rightarrow> int \<Rightarrow> instant" where
  "getDateForDay tz tml day = setDate_plus (getStartDate tz (dataModel tml)) day"

definition isWeekend :: "int \<Rightarrow> Timeline \<Rightarrow> int \<Rightarrow> bool" where
  "isWeekend tz tml day =
     (let dayOfWeek = getDay tz (getDateForDay tz tml day)
      in dayOfWeek = 0 \<or> dayOfWeek = 6)"

text \<open>\<open>getDayWidth(day)\<close> for a day that is given (not \<open>null\<close>).\<close>

definition getDayWidth :: "int \<Rightarrow> Timeline \<Rightarrow> int \<Rightarrow> real" where
  "getDayWidth tz tml day = (if isWeekend tz tml day then 20 else 80)"

text \<open>The loop \<^verbatim>\<open>for (let i = ...; i < day; i++) totalPixels += getDayWidth(i)\<close>.\<close>

function dayToPixel_loop :: "int \<Rightarrow> Timeline \<Rightarrow> int \<Rightarrow> int \<Rightarrow> real \<Rightarrow> real" where
  "dayToPixel_loop tz tml day i totalPixels =
     (if i < day
      then dayToPixel_loop tz tml day (i + 1) (totalPixels + getDayWidth tz tml i)
      else totalPixels)"
  by pat_completeness auto
termination
  by (relation "measure (\<lambda>(tz, tml, day, i, totalPixels). nat (day - i))") auto

definition dayToPixel :: "int \<Rightarrow> Timeline \<Rightarrow> int \<Rightarrow> real" where
  "dayToPixel tz tml day = dayToPixel_loop tz tml day 0 0 * zoom tml"

text \<open>The loop \<^verbatim>\<open>for (let i = ...; i < duration; i++) totalPixels += getDayWidth(startDay + i)\<close>.\<close>

function dayToPixelForDuration_loop ::
  "int \<Rightarrow> Timeline \<Rightarrow> int \<Rightarrow> int \<Rightarrow> int \<Rightarrow> real \<Rightarrow> real" where
  "dayToPixelForDuration_loop tz tml startDay dur i totalPixels =
     (if i < dur
      then dayToPixelForDuration_loop tz tml startDay dur (i + 1)
             (totalPixels + getDayWidth tz tml (startDay + i))
      else totalPixels)"
  by pat_completeness auto
termination
  by (relation "measure (\<lambda>(tz, tml, startDay, dur, i, totalPixels). nat (dur - i))") auto

definition dayToPixelForDuration :: "int \<Rightarrow> Timeline \<Rightarrow> int \<Rightarrow> int \<Rightarrow> real" where
  "dayToPixelForDuration tz tml startDay dur =
     dayToPixelForDuration_loop tz tml startDay dur 0 0 * zoom tml"

text \<open>
  The \<open>while (true)\<close> walk of \<open>pixelToDay\<close>. The result records which \<open>return\<close> was
  taken: \<open>Found\<close> for the three returns inside the walk, \<open>CapExceeded\<close> for the return
  after \<open>console.warn\<close> of the safety check.
\<close>

datatype walk_result = Found int | CapExceeded int

function pixelToDay_walk ::
  "int \<Rightarrow> Timeline \<Rightarrow> real \<Rightarrow> real \<Rightarrow> int \<Rightarrow> walk_result" where
  "pixelToDay_walk tz tml unzoomedPixel accumulatedPixels day =
     (let dayWidth = getDayWidth tz tml day;
          dayStart = accumulatedPixels;
          dayEnd = accumulatedPixels + dayWidth
      in if \<bar>unzoomedPixel - dayStart\<bar> < 0.001 then Found day
         else if \<bar>unzoomedPixel - dayEnd\<bar> < 0.001 then Found (day + 1)
         else if unzoomedPixel > dayStart \<and> unzoomedPixel < dayEnd then Found day
         else if day + 1 > 10000 then CapExceeded (day + 1)
         else pixelToDay_walk tz tml unzoomedPixel dayEnd (day + 1))"
  by pat_completeness auto
termination
  by (relation "measure (\<lambda>(tz, tml, u, acc, day). nat (10001 - day))") auto

declare dayToPixel_loop.simps [simp del]
declare dayToPixelForDuration_loop.simps [simp del]
declare pixelToDay_walk.simps [simp del]

text \<open>The caller of \<open>pixelToDay\<close> receives the day number of either return.\<close>

definition returned_day :: "walk_result \<Rightarrow> int" where
  "returned_day r = (case r of Found d \<Rightarrow> d | CapExceeded d \<Rightarrow> d)"

definition pixelToDay :: "int \<Rightarrow> Timeline \<Rightarrow> real \<Rightarrow> int" where
  "pixelToDay tz tml pixel =
     (let unzoomedPixel = pixel / zoom tml
      in returned_day (pixelToDay_walk tz tml unzoomedPixel 0 0))"

text \<open>\<open>new Timeline(container, dataModel)\<close>: zoom 1, nothing rendered or selected.\<close>

definition new_Timeline :: "TimelineDataModel \<Rightarrow> Timeline" where
  "new_Timeline dm =
     \<lparr>dataModel = dm, zoom = 1, rendered = [], selectedBlockId = None,
      selectedAnnotationId = None\<rparr>"



section \<open>Keyboard moves (\<open>Timeline.moveSelectedItem\<close>)\<close>

text \<open>
  What \<open>render()\<close> does to the modelled fields: the component map is rebuilt from the
  annotations and the blocks of the store, and a selected block without a component is
  deselected.
\<close>

definition render :: "Timeline \<Rightarrow> Timeline" where
  "render tml =
     (let ids = map ann_id (annotations (dataModel tml)) @ map blk_id (items (dataModel tml))
      in tml\<lparr>rendered := ids,
             selectedBlockId :=
               (case selectedBlockId tml of
                  Some b \<Rightarrow> if b \<in> set ids then Some b else None
                | None \<Rightarrow> None)\<rparr>)"



section \<open>Resizing with push (\<open>resize.js\<close>)\<close>

text \<open>
  An entry of \<open>blocksToPush\<close>: the id of the component's block, its start date and its
  relative day at the start of the gesture. (\<open>initialLeft\<close> of the entry is read only by
  the visual update of \<open>handleResizeMove\<close> and is left out.)
\<close>

record pushedBlock =
  pb_component :: nat
  pb_initialStartDate :: date
  pb_initialRelativeDay :: int

definition findBlocksToRight :: "int \<Rightarrow> Timeline \<Rightarrow> block \<Rightarrow> pushedBlock list" where
  "findBlocksToRight tz tml resizedData =
     (let dm = dataModel tml;
          resizedRow = row resizedData;
          resizedRelativeDay = getRelativeDayFromDate tz dm (startDate resizedData);
          resizedRightEdge = resizedRelativeDay + duration resizedData
      in map (\<lambda>it. \<lparr>pb_component = blk_id it, pb_initialStartDate = startDate it,
                     pb_initialRelativeDay = getRelativeDayFromDate tz dm (startDate it)\<rparr>)
           (filter (\<lambda>it. blk_id it \<noteq> blk_id resizedData \<and> row it = resizedRow
                          \<and> getRelativeDayFromDate tz dm (startDate it) \<ge> resizedRightEdge
                          \<and> blk_id it \<in> set (rendered tml))
              (items dm)))"

text \<open>
  The gesture state. \<open>rs_component\<close> is the id of the resized component's block;
  \<open>initialWidth\<close>, \<open>startX\<close> and \<open>initialLeft\<close> come from the DOM and the pointer event.
\<close>

record resizeState =
  rs_component :: nat
  startX :: real
  initialWidth :: real
  initialDuration :: int
  initialLeft :: real
  initialRightEdge :: int
  initialRelativeDay :: int
  blocksToPush :: "pushedBlock list"

definition startResize ::
  "int \<Rightarrow> Timeline \<Rightarrow> block \<Rightarrow> real \<Rightarrow> real \<Rightarrow> real \<Rightarrow> resizeState" where
  "startResize tz tml component_data rect_width clientX style_left =
     (let initialRelativeDay = getRelativeDayFromDate tz (dataModel tml) (startDate component_data)
      in \<lparr>rs_component = blk_id component_data,
          startX = clientX,
          initialWidth = rect_width,
          initialDuration = duration component_data,
          initialLeft = style_left,
          initialRightEdge = initialRelativeDay + duration component_data,
          initialRelativeDay = initialRelativeDay,
          blocksToPush = findBlocksToRight tz tml component_data\<rparr>)"

text \<open>The duration that \<open>handleResizeEnd\<close> commits for a pointer released at \<open>clientX\<close>.\<close>

definition snappedDuration :: "int \<Rightarrow> resizeState \<Rightarrow> Timeline \<Rightarrow> real \<Rightarrow> int" where
  "snappedDuration tz rs tml clientX =
     (let deltaX = clientX - startX rs;
          minWidth = dayToPixelForDuration tz tml (initialRelativeDay rs) 1;
          newWidth = max minWidth (initialWidth rs + deltaX);
          startDay = initialRelativeDay rs;
          endDay = pixelToDay tz tml (initialLeft rs + newWidth);
          newDuration = max 1 (endDay - startDay)
      in newDuration)"

text \<open>The store updates of \<open>handleResizeEnd\<close>, in the order of the code.\<close>

definition handleResizeEnd :: "int \<Rightarrow> resizeState \<Rightarrow> Timeline \<Rightarrow> real \<Rightarrow> Timeline" where
  "handleResizeEnd tz rs tml clientX =
     (let snapped = snappedDuration tz rs tml clientX;
          deltaDays = snapped - initialDuration rs;
          dm1 = snd (updateItem tz (dataModel tml) (rs_component rs)
                       (no_updates\<lparr>u_duration := Some snapped\<rparr>));
          dm2 = foldl (\<lambda>dm pb.
                        (let newRelativeDay = pb_initialRelativeDay pb + deltaDays;
                             newStartDate = getDateFromRelativeDay tz dm newRelativeDay
                         in snd (updateItem tz dm (pb_component pb)
                                   (no_updates\<lparr>u_startDate := Some newStartDate\<rparr>))))
                  dm1 (blocksToPush rs)
      in tml\<lparr>dataModel := dm2\<rparr>)"


section \<open>Loading a document (\<open>TimelineDataModel.fromJSON\<close>)\<close>

text \<open>
  The object that \<open>JSON.parse\<close> returns, as far as \<open>fromJSON\<close> reads it. A member that a
  document may lack is optional. The \<open>startDate\<close> member is missing, a string that is
  not a date, or a date.
\<close>

datatype start_field = StartMissing | StartInvalid | StartDate date

record raw_block =
  rb_id :: nat
  rb_startDay :: "int option"
  rb_startDate :: "date option"
  rb_duration :: int
  rb_label :: string
  rb_row :: "int option"
  rb_badge :: "string option"

record raw_annotation =
  ra_id :: nat
  ra_day :: "int option"
  ra_date :: "date option"
  ra_row :: int
  ra_text :: string

record raw_timeline =
  rt_items :: "raw_block list option"
  rt_annotations :: "raw_annotation list option"
  rt_zoom :: real
  rt_scrollPosition :: real
  rt_startDate :: start_field
  rt_lastBadgeValue :: "string option"

record raw_doc =
  rd_timeline :: "raw_timeline option"
  rd_offTimeline_blocks :: "raw_block list option"

text \<open>
  The argument of \<open>fromJSON\<close>: a text that \<open>JSON.parse\<close> rejects, or a document (given as
  text or as an object).
\<close>

datatype json_input = Unparseable | Document raw_doc

text \<open>The fields that \<open>fromJSON\<close> writes: \<open>this.data\<close> and \<open>this.nextId\<close>.\<close>

record model_state =
  ms_data :: raw_doc
  ms_nextId :: nat

text \<open>\<^verbatim>\<open>t.setHours(0, 0, 0, 0)\<close>: local midnight of the local day of the instant.\<close>

definition setHours0 :: "int \<Rightarrow> instant \<Rightarrow> instant" where
  "setHours0 tz t = ((t + tz * 60000) div msPerDay) * msPerDay - tz * 60000"

definition migrate_block :: "int \<Rightarrow> date \<Rightarrow> string option \<Rightarrow> raw_block \<Rightarrow> raw_block" where
  "migrate_block tz start lastBadge item =
     (let item1 = (if rb_row item = None then item\<lparr>rb_row := Some 0\<rparr> else item);
          item2 = (case rb_startDay item1 of
                     Some sd \<Rightarrow>
                       (if rb_startDate item1 = None
                        then item1\<lparr>rb_startDate :=
                               Some (toISODate (setDate_plus (Date_local tz start) sd))\<rparr>
                        else item1)
                   | None \<Rightarrow> item1)
      in if rb_badge item2 = None
         then item2\<lparr>rb_badge := Some (case lastBadge of
                                         Some g \<Rightarrow> if g = [] then ''XD'' else g
                                       | None \<Rightarrow> ''XD'')\<rparr>
         else item2)"

definition migrate_annotation :: "int \<Rightarrow> date \<Rightarrow> raw_annotation \<Rightarrow> raw_annotation" where
  "migrate_annotation tz start ann =
     (case ra_day ann of
        Some dy \<Rightarrow>
          (if ra_date ann = None
           then ann\<lparr>ra_date := Some (toISODate (setDate_plus (Date_local tz start) dy))\<rparr>
           else ann)
      | None \<Rightarrow> ann)"

text \<open>
  \<open>fromJSON\<close>, with \<open>now\<close> the instant of the call. The result is the returned boolean and
  the state left behind. Each \<open>(False, _)\<close> is the \<open>catch\<close> block, reached from the \<open>throw\<close>
  of \<open>JSON.parse\<close>, from a \<open>TypeError\<close> on a missing member, or from the \<open>RangeError\<close> of
  \<open>toISOString\<close> on an invalid date; the state is what the statements before the throw
  have written.
\<close>

definition fromJSON :: "int \<Rightarrow> instant \<Rightarrow> model_state \<Rightarrow> json_input \<Rightarrow> bool \<times> model_state" where
  "fromJSON tz now st json =
     (case json of
        Unparseable \<Rightarrow> (False, st)
      | Document parsed \<Rightarrow>
          (let st1 = st\<lparr>ms_data := parsed\<rparr> in
           case rd_timeline parsed of
             None \<Rightarrow> (False, st1)
           | Some t \<Rightarrow>
               (case rt_startDate t of
                  StartInvalid \<Rightarrow> (False, st1)
                | sf \<Rightarrow>
                    (let start = (case sf of
                                    StartDate d \<Rightarrow> toISODate (setHours0 tz (Date_utc d))
                                  | _ \<Rightarrow> toISODate (setHours0 tz now));
                         t1 = t\<lparr>rt_startDate := StartDate start\<rparr>
                     in case rt_items t1 of
                          None \<Rightarrow> (False, st1\<lparr>ms_data := parsed\<lparr>rd_timeline := Some t1\<rparr>\<rparr>)
                        | Some its \<Rightarrow>
                            (let its' = map (migrate_block tz start (rt_lastBadgeValue t1)) its;
                                 t2 = t1\<lparr>rt_items := Some its'\<rparr>;
                                 t3 = (case rt_lastBadgeValue t2 of
                                         Some g \<Rightarrow> if g = [] then t2\<lparr>rt_lastBadgeValue := Some ''XD''\<rparr>
                                                   else t2
                                       | None \<Rightarrow> t2\<lparr>rt_lastBadgeValue := Some ''XD''\<rparr>);
                                 anns = (case rt_annotations t3 of Some as \<Rightarrow> as | None \<Rightarrow> []);
                                 anns' = map (migrate_annotation tz start) anns;
                                 t4 = t3\<lparr>rt_annotations := Some anns'\<rparr>;
                                 st4 = st1\<lparr>ms_data := parsed\<lparr>rd_timeline := Some t4\<rparr>\<rparr>
                             in case rd_offTimeline_blocks parsed of
                                  None \<Rightarrow> (False, st4)
                                | Some off \<Rightarrow>
                                    (let allIds = map rb_id its' @ map ra_id anns' @ map rb_id off;
                                         maxId = foldl max 0 allIds
                                     in (True, st4\<lparr>ms_nextId := maxId + 1\<rparr>)))))))"

text \<open>The object \<open>this.data\<close> of a store, and the state that \<open>fromJSON\<close> starts from.\<close>

definition raw_of_block :: "block \<Rightarrow> raw_block" where
  "raw_of_block b =
     \<lparr>rb_id = blk_id b, rb_startDay = None, rb_startDate = Some (startDate b),
      rb_duration = duration b, rb_label = label b, rb_row = Some (row b),
      rb_badge = Some (badge b)\<rparr>"

definition raw_of_annotation :: "annotation \<Rightarrow> raw_annotation" where
  "raw_of_annotation a =
     \<lparr>ra_id = ann_id a, ra_day = None, ra_date = Some (ann_date a), ra_row = ann_row a,
      ra_text = ann_text a\<rparr>"

definition this_data :: "TimelineDataModel \<Rightarrow> raw_doc" where
  "this_data s =
     \<lparr>rd_timeline = Some
        \<lparr>rt_items = Some (map raw_of_block (items s)),
         rt_annotations = Some (map raw_of_annotation (annotations s)),
         rt_zoom = data_zoom s, rt_scrollPosition = scrollPosition s,
         rt_startDate = StartDate (timeline_startDate s),
         rt_lastBadgeValue = Some (lastBadgeValue s)\<rparr>,
      rd_offTimeline_blocks = Some (map raw_of_block (offTimeline_blocks s))\<rparr>"

definition state_of :: "TimelineDataModel \<Rightarrow> model_state" where
  "state_of s = \<lparr>ms_data = this_data s, ms_nextId = nextId s\<rparr>"


section \<open>Closed forms used in the proofs\<close>

text \<open>The local weekday of a relative day (0 = Sunday), which does not depend on \<open>tz\<close>.\<close>

definition weekday :: "Timeline \<Rightarrow> int \<Rightarrow> int" where
  "weekday tml day = (timeline_startDate (dataModel tml) + day + 4) mod 7"

text \<open>The unzoomed left edge of a day: the sum of the widths of the days before it.\<close>

definition dayStart :: "int \<Rightarrow> Timeline \<Rightarrow> int \<Rightarrow> real" where
  "dayStart tz tml day = (\<Sum>i = 0..<day. getDayWidth tz tml i)"

text \<open>The \<open>updates\<close> after the conversion of \<open>startDay\<close> that \<open>updateItem\<close> makes for a block.\<close>

definition block_updates :: "int \<Rightarrow> TimelineDataModel \<Rightarrow> updates \<Rightarrow> updates" where
  "block_updates tz s upd =
     (case u_startDay upd of
        Some sd \<Rightarrow>
          (if u_startDate upd = None
           then upd\<lparr>u_startDate := Some (getDateFromRelativeDay tz s sd), u_startDay := None\<rparr>
           else upd)
      | None \<Rightarrow> upd)"

text \<open>The \<open>updates\<close> after the conversion of \<open>day\<close> that \<open>updateItem\<close> makes for an annotation.\<close>

definition annotation_updates :: "int \<Rightarrow> TimelineDataModel \<Rightarrow> updates \<Rightarrow> updates" where
  "annotation_updates tz s upd =
     (case u_day upd of
        Some dy \<Rightarrow>
          (if u_date upd = None
           then upd\<lparr>u_date := Some (getDateFromRelativeDay tz s dy), u_day := None\<rparr>
           else upd)
      | None \<Rightarrow> upd)"


section \<open>Stores used in examples\<close>

text \<open>A store whose start date is 2024-01-01, a Monday, and the timeline showing it.\<close>

definition store_2024 :: TimelineDataModel where
  "store_2024 = new_TimelineDataModel (ymd 2024 1 1)"


definition timeline_2024 :: Timeline where
  "timeline_2024 = new_Timeline store_2024"

text \<open>A timeline whose start date is 2024-01-06, a Saturday.\<close>

definition store_saturday :: TimelineDataModel where
  "store_saturday = new_TimelineDataModel (ymd 2024 1 6)"

definition timeline_saturday :: Timeline where
  "timeline_saturday = new_Timeline store_saturday"

text \<open>
  Scenario A on a host whose offset from UTC is \<open>tz\<close>: the store after
  \<open>addBlock(0, 5, "Design", 0)\<close> and \<open>addBlock(5, 3, "Build", 0)\<close>, rendered.
\<close>

definition store_scenarioA :: "int \<Rightarrow> TimelineDataModel" where
  "store_scenarioA tz =
     snd (addBlock tz (snd (addBlock tz store_2024 (RelativeDay 0) 5 ''Design'' 0))
            (RelativeDay 5) 3 ''Build'' 0)"

definition timeline_scenarioA :: "int \<Rightarrow> Timeline" where
  "timeline_scenarioA tz = render (new_Timeline (store_scenarioA tz))"



text \<open>The block that the first \<open>addBlock\<close> of Scenario A returns (the component's data).\<close>

definition block_design :: "int \<Rightarrow> block" where
  "block_design tz = fst (addBlock tz store_2024 (RelativeDay 0) 5 ''Design'' 0)"

text \<open>The document \<^verbatim>\<open>{}\<close>, and a document with a timeline but without \<open>offTimeline\<close>.\<close>

definition doc_empty :: raw_doc where
  "doc_empty = \<lparr>rd_timeline = None, rd_offTimeline_blocks = None\<rparr>"

definition doc_no_offTimeline :: raw_doc where
  "doc_no_offTimeline =
     \<lparr>rd_timeline = Some
        \<lparr>rt_items = Some [], rt_annotations = None, rt_zoom = 1, rt_scrollPosition = 0,
         rt_startDate = StartDate (ymd 2024 1 1), rt_lastBadgeValue = None\<rparr>,
      rd_offTimeline_blocks = None\<rparr>"


section \<open>Milestone creation\<close>

lemma addAnnotation_snd:
  "snd (addAnnotation tz s dd r txt) =
     notifyChange (s\<lparr>nextId := nextId s + 1,
       annotations := annotations s @ [fst (addAnnotation tz s dd r txt)]\<rparr>)"
  by (simp add: addAnnotation_def generateId_def Let_def)








section \<open>Relative days and dates\<close>

lemma msPerDay_pos: "0 < msPerDay" by (simp add: msPerDay_def)

lemma getDateFromRelativeDay_eq:
  "getDateFromRelativeDay tz s n = timeline_startDate s + n + (- (tz * 60000)) div msPerDay"
proof -
  have "timeline_startDate s * msPerDay - tz * 60000 + n * msPerDay
          = - (tz * 60000) + (timeline_startDate s + n) * msPerDay"
    by (simp add: algebra_simps)
  then have "getDateFromRelativeDay tz s n
          = (- (tz * 60000) + (timeline_startDate s + n) * msPerDay) div msPerDay"
    by (simp only: getDateFromRelativeDay_def getStartDate_def Date_local_def setDate_plus_def
        toISODate_def)
  also have "\<dots> = (timeline_startDate s + n) + (- (tz * 60000)) div msPerDay"
    using msPerDay_pos by (subst div_mult_self1) simp_all
  finally show ?thesis by simp
qed

lemma getRelativeDayFromDate_eq:
  "getRelativeDayFromDate tz s d = d - timeline_startDate s + Math_round_div (tz * 60000) msPerDay"
proof -
  have "2 * (d * msPerDay - (timeline_startDate s * msPerDay - tz * 60000)) + msPerDay
          = (2 * (tz * 60000) + msPerDay) + (d - timeline_startDate s) * (2 * msPerDay)"
    by (simp add: algebra_simps)
  then have "getRelativeDayFromDate tz s d
          = ((2 * (tz * 60000) + msPerDay) + (d - timeline_startDate s) * (2 * msPerDay))
              div (2 * msPerDay)"
    by (simp only: getRelativeDayFromDate_def getStartDate_def Date_local_def Date_utc_def
        Math_round_div_def Let_def)
  also have "\<dots> = (d - timeline_startDate s) + (2 * (tz * 60000) + msPerDay) div (2 * msPerDay)"
    using msPerDay_pos by (subst div_mult_self1) simp_all
  finally show ?thesis by (simp add: Math_round_div_def)
qed

lemma tz_west_floor: "- 720 < tz \<Longrightarrow> tz \<le> 0 \<Longrightarrow> (- (tz * 60000)) div msPerDay = 0"
  by (simp add: msPerDay_def div_pos_pos_trivial)

lemma tz_west_round: "- 720 < tz \<Longrightarrow> tz \<le> 0 \<Longrightarrow> Math_round_div (tz * 60000) msPerDay = 0"
  by (simp add: msPerDay_def Math_round_div_def div_pos_pos_trivial)

lemma tz_east_floor: "0 < tz \<Longrightarrow> tz \<le> 1440 \<Longrightarrow> (- (tz * 60000)) div msPerDay = - 1"
proof -
  have "- 86400000 \<le> - (tz * 60000)" "- (tz * 60000) < 0" if "0 < tz" "tz \<le> 1440"
    using that by simp_all
  then show "0 < tz \<Longrightarrow> tz \<le> 1440 \<Longrightarrow> ?thesis"
    unfolding msPerDay_def by (simp add: div_eq_minus1 zdiv_eq_0_iff div_pos_neg_trivial)
qed
lemma tz_east_round: "0 \<le> tz \<Longrightarrow> tz < 720 \<Longrightarrow> Math_round_div (tz * 60000) msPerDay = 0"
  by (simp add: msPerDay_def Math_round_div_def div_pos_pos_trivial)

lemma relativeDay_roundtrip_west:
  "- 720 < tz \<Longrightarrow> tz \<le> 0 \<Longrightarrow>
     getRelativeDayFromDate tz s (getDateFromRelativeDay tz s n) = n"
  by (simp add: getRelativeDayFromDate_eq getDateFromRelativeDay_eq tz_west_floor tz_west_round)

lemma date_roundtrip_west:
  "- 720 < tz \<Longrightarrow> tz \<le> 0 \<Longrightarrow>
     getDateFromRelativeDay tz s (getRelativeDayFromDate tz s d) = d"
  by (simp add: getRelativeDayFromDate_eq getDateFromRelativeDay_eq tz_west_floor tz_west_round)

lemma relativeDay_roundtrip_east:
  "0 < tz \<Longrightarrow> tz < 720 \<Longrightarrow>
     getRelativeDayFromDate tz s (getDateFromRelativeDay tz s n) = n - 1"
  by (simp add: getRelativeDayFromDate_eq getDateFromRelativeDay_eq tz_east_floor tz_east_round)

text \<open>
  C6 (the code at a failing input): on a host one hour east of UTC, with start date
  2024-01-01, \<open>getDateFromRelativeDay(0)\<close> is 2023-12-31, so
  \<open>getRelativeDayFromDate(getDateFromRelativeDay(0))\<close> is \<open>-1\<close> and not \<open>0\<close>; and the stored
  date 2024-01-06 has relative day 5, which converts back to 2024-01-05.
\<close>

theorem relativeDay_roundtrip_utc_plus_1:
  "getDateFromRelativeDay 60 store_2024 0 = ymd 2023 12 31
   \<and> getRelativeDayFromDate 60 store_2024 (getDateFromRelativeDay 60 store_2024 0) = - 1
   \<and> getRelativeDayFromDate 60 store_2024 (ymd 2024 1 6) = 5
   \<and> getDateFromRelativeDay 60 store_2024 (getRelativeDayFromDate 60 store_2024 (ymd 2024 1 6))
       = ymd 2024 1 5"
  by (simp add: getRelativeDayFromDate_eq getDateFromRelativeDay_eq
      store_2024_def new_TimelineDataModel_def ymd_def msPerDay_def Math_round_div_def)


section \<open>Day widths and the pixel walk\<close>

lemma isWeekend_weekday:
  "isWeekend tz tml day = (weekday tml day = 0 \<or> weekday tml day = 6)"
proof -
  have "timeline_startDate (dataModel tml) * msPerDay - tz * 60000 + day * msPerDay + tz * 60000
          = 0 + (timeline_startDate (dataModel tml) + day) * msPerDay"
    by (simp add: algebra_simps)
  then have "(timeline_startDate (dataModel tml) * msPerDay - tz * 60000 + day * msPerDay
               + tz * 60000) div msPerDay = timeline_startDate (dataModel tml) + day"
    using msPerDay_pos by (simp only: div_mult_self1) simp
  then show ?thesis
    by (simp add: isWeekend_def getDay_def getDateForDay_def getStartDate_def Date_local_def
        setDate_plus_def weekday_def Let_def)
qed

lemma getDayWidth_ge: "20 \<le> getDayWidth tz tml day"
  by (simp add: getDayWidth_def)

lemma getDayWidth_le: "getDayWidth tz tml day \<le> 80"
  by (simp add: getDayWidth_def)

lemma int_interval_split: "(i::int) < day \<Longrightarrow> {i..<day} = insert i {i + 1..<day}"
  by auto

lemma sum_int_first:
  fixes f :: "int \<Rightarrow> real"
  shows "i < day \<Longrightarrow> sum f {i..<day} = f i + sum f {i + 1..<day}"
  by (simp add: int_interval_split)

lemma sum_int_last:
  fixes f :: "int \<Rightarrow> real"
  shows "i \<le> day \<Longrightarrow> sum f {i..<day + 1} = sum f {i..<day} + f day"
proof -
  assume "i \<le> day"
  then have "{i..<day + 1} = insert day {i..<day}" by auto
  then show ?thesis by simp
qed

lemma dayToPixel_loop_sum:
  "dayToPixel_loop tz tml day i tot = tot + (\<Sum>k = i..<day. getDayWidth tz tml k)"
proof (induction tz tml day i tot rule: dayToPixel_loop.induct)
  case (1 tz tml day i totalPixels)
  show ?case
  proof (cases "i < day")
    case True
    with 1 show ?thesis
      by (subst dayToPixel_loop.simps) (simp add: sum_int_first)
  next
    case False
    then show ?thesis
      by (subst dayToPixel_loop.simps) simp
  qed
qed

lemma dayToPixel_dayStart: "dayToPixel tz tml day = dayStart tz tml day * zoom tml"
  by (simp add: dayToPixel_def dayStart_def dayToPixel_loop_sum)

lemma dayStart_Suc: "0 \<le> day \<Longrightarrow> dayStart tz tml (day + 1) = dayStart tz tml day + getDayWidth tz tml day"
  by (simp add: dayStart_def sum_int_last)

lemma dayStart_0: "dayStart tz tml 0 = 0"
  by (simp add: dayStart_def)

lemma dayStart_nonneg: "0 \<le> dayStart tz tml day"
  unfolding dayStart_def by (rule sum_nonneg) (simp add: getDayWidth_def)

lemma near_iff: "(\<bar>x - y\<bar> < (0.001::real)) = (y - 1/1000 < x \<and> x < y + 1/1000)"
proof -
  have "(0.001::real) = 1/1000" by simp
  then show ?thesis by (simp only:) linarith
qed

lemma dayStart_mono: "a \<le> b \<Longrightarrow> dayStart tz tml a \<le> dayStart tz tml b"
  unfolding dayStart_def by (rule sum_mono2) (auto simp add: getDayWidth_def)

lemma dayStart_gap:
  assumes "0 \<le> day" "day + 2 \<le> d"
  shows "dayStart tz tml day + getDayWidth tz tml day + 20 \<le> dayStart tz tml d"
proof -
  have "dayStart tz tml (day + 1 + 1) = dayStart tz tml day + getDayWidth tz tml day
          + getDayWidth tz tml (day + 1)"
    using dayStart_Suc[of "day + 1" tz tml] dayStart_Suc[of day tz tml] assms(1) by simp
  moreover have "dayStart tz tml (day + 1 + 1) \<le> dayStart tz tml d"
    using assms(2) by (intro dayStart_mono) simp
  moreover have "20 \<le> getDayWidth tz tml (day + 1)" by (rule getDayWidth_ge)
  ultimately show ?thesis by linarith
qed

lemma walk_finds_boundary:
  "\<bar>u - dayStart tz tml d\<bar> < 0.001 \<Longrightarrow> acc = dayStart tz tml day \<Longrightarrow> 0 \<le> day \<Longrightarrow> day \<le> d \<Longrightarrow>
     d \<le> 10001 \<Longrightarrow> pixelToDay_walk tz tml u acc day = Found d"
proof (induction tz tml u acc day rule: pixelToDay_walk.induct)
  case (1 tz tml u acc day)
  note step = dayStart_Suc[OF \<open>0 \<le> day\<close>, of tz tml]
  have w: "20 \<le> getDayWidth tz tml day" by (rule getDayWidth_ge)
  have u: "dayStart tz tml d - 1/1000 < u" "u < dayStart tz tml d + 1/1000"
    using "1.prems"(1) by (simp_all only: near_iff)
  consider "day = d" | "day + 1 = d" | "day + 2 \<le> d" using \<open>day \<le> d\<close> by linarith
  then show ?case
  proof cases
    case 1
    with "1.prems" show ?thesis
      by (subst pixelToDay_walk.simps) (simp add: Let_def)
  next
    case 2
    have e: "dayStart tz tml d = acc + getDayWidth tz tml day"
      using step 2 "1.prems"(2) by auto
    have far: "\<not> \<bar>u - acc\<bar> < 0.001"
      unfolding near_iff using u w e by linarith
    have near: "\<bar>u - (acc + getDayWidth tz tml day)\<bar> < 0.001"
      using "1.prems"(1) e by simp
    show ?thesis
      using far near 2 by (subst pixelToDay_walk.simps) (simp add: Let_def)
  next
    case 3
    have gap: "acc + getDayWidth tz tml day + 20 \<le> dayStart tz tml d"
      using dayStart_gap[OF \<open>0 \<le> day\<close> 3] "1.prems"(2) by simp
    have t1: "\<not> \<bar>u - acc\<bar> < 0.001"
      unfolding near_iff using u w gap by linarith
    have t2: "\<not> \<bar>u - (acc + getDayWidth tz tml day)\<bar> < 0.001"
      unfolding near_iff using u gap by linarith
    have t3: "\<not> u < acc + getDayWidth tz tml day"
      using u gap by linarith
    have t4: "\<not> day + 1 > 10000"
      using 3 \<open>d \<le> 10001\<close> by simp
    have "pixelToDay_walk tz tml u (acc + getDayWidth tz tml day) (day + 1) = Found d"
      using t1 t2 t3 t4 "1.prems" 3 step
      by (intro "1.IH"[OF refl refl refl]) simp_all
    then show ?thesis
      using t1 t2 t3 t4 by (subst pixelToDay_walk.simps) (simp add: Let_def)
  qed
qed

lemma walk_past_cap:
  "dayStart tz tml 10002 - 1/1000 < u \<Longrightarrow> acc = dayStart tz tml day \<Longrightarrow> 0 \<le> day \<Longrightarrow>
     day \<le> 10000 \<Longrightarrow> pixelToDay_walk tz tml u acc day = CapExceeded 10001"
proof (induction tz tml u acc day rule: pixelToDay_walk.induct)
  case (1 tz tml u acc day)
  note step = dayStart_Suc[OF \<open>0 \<le> day\<close>, of tz tml]
  have gap: "acc + getDayWidth tz tml day + 20 \<le> dayStart tz tml 10002"
    using dayStart_gap[OF \<open>0 \<le> day\<close>, of 10002 tz tml] "1.prems" by simp
  have w: "20 \<le> getDayWidth tz tml day" by (rule getDayWidth_ge)
  have t1: "\<not> \<bar>u - acc\<bar> < 0.001"
    unfolding near_iff using "1.prems"(1) w gap by linarith
  have t2: "\<not> \<bar>u - (acc + getDayWidth tz tml day)\<bar> < 0.001"
    unfolding near_iff using "1.prems"(1) gap by linarith
  have t3: "\<not> u < acc + getDayWidth tz tml day"
    using "1.prems"(1) gap by linarith
  show ?case
  proof (cases "day + 1 > 10000")
    case True
    then have "day + 1 = 10001" using \<open>day \<le> 10000\<close> by simp
    then show ?thesis
      using t1 t2 t3 by (subst pixelToDay_walk.simps) (simp add: Let_def)
  next
    case False
    have "pixelToDay_walk tz tml u (acc + getDayWidth tz tml day) (day + 1) = CapExceeded 10001"
      using t1 t2 t3 False "1.prems" step
      by (intro "1.IH"[OF refl refl refl]) simp_all
    then show ?thesis
      using t1 t2 t3 False by (subst pixelToDay_walk.simps) (simp add: Let_def)
  qed
qed

lemma walk_negative:
  "u \<le> - 1/1000 \<Longrightarrow> 0 \<le> acc \<Longrightarrow> day \<le> 10000 \<Longrightarrow>
     pixelToDay_walk tz tml u acc day = CapExceeded 10001"
proof (induction tz tml u acc day rule: pixelToDay_walk.induct)
  case (1 tz tml u acc day)
  have w: "20 \<le> getDayWidth tz tml day" by (rule getDayWidth_ge)
  have t1: "\<not> \<bar>u - acc\<bar> < 0.001"
    unfolding near_iff using "1.prems" by linarith
  have t2: "\<not> \<bar>u - (acc + getDayWidth tz tml day)\<bar> < 0.001"
    unfolding near_iff using "1.prems" w by linarith
  have t3: "\<not> acc < u"
    using "1.prems" by linarith
  show ?case
  proof (cases "day + 1 > 10000")
    case True
    then have "day + 1 = 10001" using \<open>day \<le> 10000\<close> by simp
    then show ?thesis
      using t1 t2 t3 by (subst pixelToDay_walk.simps) (simp add: Let_def)
  next
    case False
    have "pixelToDay_walk tz tml u (acc + getDayWidth tz tml day) (day + 1) = CapExceeded 10001"
      using t1 t2 t3 False "1.prems" w
      by (intro "1.IH"[OF refl refl refl]) simp_all
    then show ?thesis
      using t1 t2 t3 False by (subst pixelToDay_walk.simps) (simp add: Let_def)
  qed
qed

lemma walk_range:
  "0 \<le> day \<Longrightarrow> day \<le> 10000 \<Longrightarrow>
     pixelToDay_walk tz tml u acc day = CapExceeded 10001
     \<or> (\<exists>d. pixelToDay_walk tz tml u acc day = Found d \<and> day \<le> d \<and> d \<le> 10001)"
proof (induction tz tml u acc day rule: pixelToDay_walk.induct)
  case (1 tz tml u acc day)
  show ?case
  proof (cases "\<bar>u - acc\<bar> < 0.001 \<or> \<bar>u - (acc + getDayWidth tz tml day)\<bar> < 0.001
      \<or> (u > acc \<and> u < acc + getDayWidth tz tml day) \<or> day + 1 > 10000")
    case True
    then show ?thesis
      using "1.prems" by (subst (1 2) pixelToDay_walk.simps) (auto simp add: Let_def)
  next
    case False
    then have "pixelToDay_walk tz tml u (acc + getDayWidth tz tml day) (day + 1) = CapExceeded 10001
     \<or> (\<exists>d. pixelToDay_walk tz tml u (acc + getDayWidth tz tml day) (day + 1) = Found d
            \<and> day + 1 \<le> d \<and> d \<le> 10001)"
      using "1.prems" by (intro "1.IH"[OF refl refl refl]) simp_all
    moreover have "pixelToDay_walk tz tml u acc day
        = pixelToDay_walk tz tml u (acc + getDayWidth tz tml day) (day + 1)"
      using False by (subst pixelToDay_walk.simps) (auto simp add: Let_def)
    ultimately show ?thesis by auto
  qed
qed


lemma dayToPixelForDuration_loop_sum:
  "dayToPixelForDuration_loop tz tml startDay dur i tot
     = tot + (\<Sum>k = i..<dur. getDayWidth tz tml (startDay + k))"
proof (induction tz tml startDay dur i tot rule: dayToPixelForDuration_loop.induct)
  case (1 tz tml startDay dur i totalPixels)
  show ?case
  proof (cases "i < dur")
    case True
    with 1 show ?thesis
      by (subst dayToPixelForDuration_loop.simps) (simp add: sum_int_first)
  next
    case False
    then show ?thesis
      by (subst dayToPixelForDuration_loop.simps) simp
  qed
qed

lemma getDayWidth_weekday:
  "getDayWidth tz tml day = (if weekday tml day = 0 \<or> weekday tml day = 6 then 20 else 80)"
  by (simp add: getDayWidth_def isWeekend_weekday)

lemma weekday_shift: "weekday tml (startDay + k) = (weekday tml startDay + k) mod 7"
proof -
  have "timeline_startDate (dataModel tml) + (startDay + k) + 4
          = (timeline_startDate (dataModel tml) + startDay + 4) + k"
    by simp
  then show ?thesis
    unfolding weekday_def by (simp only: mod_add_left_eq)
qed

lemma weekday_range: "weekday tml d \<in> {0, 1, 2, 3, 4, 5, 6}"
proof -
  have "0 \<le> weekday tml d" "weekday tml d < 7" by (simp_all add: weekday_def)
  then show ?thesis by auto
qed

lemma week_width:
  "(\<Sum>k = 0..<7. getDayWidth tz tml (startDay + k)) = 440"
proof -
  have expand: "(\<Sum>k = 0..<7. f k) = f 0 + f 1 + f 2 + f 3 + f 4 + f 5 + f 6"
    for f :: "int \<Rightarrow> real"
    by (simp add: sum_int_first)
  have "weekday tml startDay = 0 \<or> weekday tml startDay = 1 \<or> weekday tml startDay = 2
      \<or> weekday tml startDay = 3 \<or> weekday tml startDay = 4 \<or> weekday tml startDay = 5
      \<or> weekday tml startDay = 6"
    using weekday_range[of tml startDay] by simp
  then show ?thesis
    unfolding expand by (elim disjE) (simp_all add: getDayWidth_weekday weekday_shift)
qed

lemma dayToPixelForDuration_week:
  "dayToPixelForDuration tz tml startDay 7 = 440 * zoom tml"
  by (simp add: dayToPixelForDuration_def dayToPixelForDuration_loop_sum week_width)

lemma dayToPixel_1: "dayToPixel tz tml 1 = getDayWidth tz tml 0 * zoom tml"
  using dayStart_Suc[of 0 tz tml] by (simp add: dayToPixel_dayStart dayStart_0)

lemma isWeekend_saturday: "isWeekend tz timeline_saturday 0"
  by (simp add: isWeekend_weekday weekday_def timeline_saturday_def store_saturday_def
      new_Timeline_def new_TimelineDataModel_def ymd_def)
lemma isWeekend_2024: "\<not> isWeekend tz timeline_2024 0"
  by (simp add: isWeekend_weekday weekday_def timeline_2024_def store_2024_def
      new_Timeline_def new_TimelineDataModel_def ymd_def)

lemma zoom_2024: "zoom timeline_2024 = 1"
  by (simp add: timeline_2024_def new_Timeline_def)



section \<open>Round trip between days and pixels\<close>

text \<open>
  C5 (as the code has it): for every integer day \<open>d\<close> with \<open>0 \<le> d \<le> 10001\<close> and every
  positive zoom factor, \<open>pixelToDay(dayToPixel(d)) = d\<close>: the pixel that lies exactly on the
  boundary where day \<open>d\<close> starts resolves to \<open>d\<close>.
\<close>

theorem pixelToDay_dayToPixel_roundtrip:
  "0 \<le> d \<Longrightarrow> d \<le> 10001 \<Longrightarrow> 0 < zoom tml \<Longrightarrow>
     pixelToDay tz tml (dayToPixel tz tml d) = d"
proof -
  assume d: "0 \<le> d" "d \<le> 10001" and z: "0 < zoom tml"
  have "pixelToDay_walk tz tml (dayStart tz tml d) 0 0 = Found d"
    by (rule walk_finds_boundary) (simp_all add: dayStart_0 d)
  then show ?thesis
    using z by (simp add: pixelToDay_def dayToPixel_dayStart returned_day_def)
qed

lemma dayToPixel_2024_7: "dayToPixel 0 timeline_2024 7 = 440"
  using dayToPixelForDuration_week[of 0 timeline_2024 0]
  by (simp add: dayToPixel_def dayToPixelForDuration_def dayToPixel_loop_sum
      dayToPixelForDuration_loop_sum zoom_2024)

theorem pixelToDay_dayToPixel_roundtrip_witness:
  "(0::int) \<le> 7 \<and> (7::int) \<le> 10001 \<and> 0 < zoom timeline_2024
   \<and> dayToPixel 0 timeline_2024 7 = 440
   \<and> pixelToDay 0 timeline_2024 (dayToPixel 0 timeline_2024 7) = 7"
  using pixelToDay_dayToPixel_roundtrip[of 7 timeline_2024 0]
  by (simp add: zoom_2024 dayToPixel_2024_7)

text \<open>
  C5 (as stated, for every \<open>d \<ge> 0\<close>) fails beyond the safety cap of the walk:
  \<open>pixelToDay(dayToPixel(10002))\<close> is 10001.
\<close>

theorem pixelToDay_dayToPixel_cap_counterexample:
  "pixelToDay 0 timeline_2024 (dayToPixel 0 timeline_2024 10002) = 10001
   \<and> pixelToDay 0 timeline_2024 (dayToPixel 0 timeline_2024 10002) \<noteq> 10002"
proof -
  have "pixelToDay_walk 0 timeline_2024 (dayStart 0 timeline_2024 10002) 0 0 = CapExceeded 10001"
    by (rule walk_past_cap) (simp_all add: dayStart_0)
  then show ?thesis
    by (simp add: pixelToDay_def dayToPixel_dayStart returned_day_def zoom_2024)
qed


section \<open>The iteration cap of the pixel walk\<close>

text \<open>
  C8 (as the code has it): for every pixel the walk of \<open>pixelToDay\<close> ends, either at a
  day between 0 and 10001 that it found or at the safety check after day 10000; the
  caller receives a day number between 0 and 10001 in both cases, and when the cap is
  exceeded that number is 10001, returned like any other result.
\<close>

theorem pixelToDay_walk_bounded:
  "(pixelToDay_walk tz tml u 0 0 = CapExceeded 10001
      \<or> (\<exists>d. pixelToDay_walk tz tml u 0 0 = Found d \<and> 0 \<le> d \<and> d \<le> 10001))
   \<and> 0 \<le> pixelToDay tz tml pixel \<and> pixelToDay tz tml pixel \<le> 10001
   \<and> (pixelToDay_walk tz tml (pixel / zoom tml) 0 0 = CapExceeded 10001
        \<longrightarrow> pixelToDay tz tml pixel = 10001)"
proof -
  have r: "pixelToDay_walk tz tml v 0 0 = CapExceeded 10001
      \<or> (\<exists>d. pixelToDay_walk tz tml v 0 0 = Found d \<and> 0 \<le> d \<and> d \<le> 10001)" for v
    by (rule walk_range) simp_all
  have "0 \<le> pixelToDay tz tml pixel \<and> pixelToDay tz tml pixel \<le> 10001"
    using r[of "pixel / zoom tml"] by (auto simp add: pixelToDay_def returned_day_def)
  then show ?thesis
    using r[of u] by (simp add: pixelToDay_def returned_day_def)
qed

theorem pixelToDay_walk_bounded_witness:
  "pixelToDay_walk 0 timeline_2024 (- 5 / zoom timeline_2024) 0 0 = CapExceeded 10001
   \<and> pixelToDay 0 timeline_2024 (- 5) = 10001
   \<and> pixelToDay_walk 0 timeline_2024 100 0 0 = Found 1"
proof -
  have "pixelToDay_walk 0 timeline_2024 (- 5) 0 0 = CapExceeded 10001"
    by (rule walk_negative) simp_all
  then have c: "pixelToDay_walk 0 timeline_2024 (- 5 / zoom timeline_2024) 0 0 = CapExceeded 10001"
    by (simp add: zoom_2024)
  have "pixelToDay_walk 0 timeline_2024 100 0 0 = Found 1"
    by (simp add: pixelToDay_walk.simps getDayWidth_def isWeekend_2024 isWeekend_weekday weekday_def
      timeline_2024_def store_2024_def new_Timeline_def new_TimelineDataModel_def ymd_def)
  then show ?thesis
    using pixelToDay_walk_bounded[of 0 timeline_2024 100 "- 5"] c by simp
qed

text \<open>
  C8 (as stated) fails: for the pixel \<open>-5\<close> the walk exceeds the cap, and the caller
  still receives a day number, 10001, although that day starts to the right of the pixel.
\<close>

theorem pixelToDay_cap_returns_counterexample:
  "pixelToDay_walk 0 timeline_2024 (- 5 / zoom timeline_2024) 0 0 = CapExceeded 10001
   \<and> pixelToDay 0 timeline_2024 (- 5) = 10001
   \<and> \<not> dayToPixel 0 timeline_2024 10001 \<le> - 5"
proof -
  have "pixelToDay_walk 0 timeline_2024 (- 5) 0 0 = CapExceeded 10001"
    by (rule walk_negative) simp_all
  moreover have "0 \<le> dayToPixel 0 timeline_2024 10001"
    using dayStart_nonneg[of 0 timeline_2024 10001] by (simp add: dayToPixel_dayStart zoom_2024)
  ultimately show ?thesis
    by (simp add: pixelToDay_def returned_day_def zoom_2024)
qed


section \<open>The width of a week\<close>

text \<open>
  C10 (as the code has it): when day 0 of the timeline is a weekday and the zoom factor
  is positive, then for every start day \<open>dayToPixelForDuration(startDay, 7)\<close> is
  \<open>440 \<times> zoom\<close> (five columns of 80 and two of 20), \<open>7 \<times> dayToPixel(1)\<close> is \<open>560 \<times> zoom\<close>,
  and the former is strictly less.
\<close>

theorem week_narrower_than_seven_first_days:
  "0 < zoom tml \<Longrightarrow> \<not> isWeekend tz tml 0 \<Longrightarrow>
     dayToPixelForDuration tz tml startDay 7 = 440 * zoom tml
     \<and> 7 * dayToPixel tz tml 1 = 560 * zoom tml
     \<and> dayToPixelForDuration tz tml startDay 7 < 7 * dayToPixel tz tml 1"
  by (simp add: dayToPixelForDuration_week dayToPixel_1 getDayWidth_def)

theorem week_narrower_than_seven_first_days_witness:
  "0 < zoom timeline_2024 \<and> \<not> isWeekend 0 timeline_2024 0
   \<and> dayToPixelForDuration 0 timeline_2024 3 7 = 440
   \<and> 7 * dayToPixel 0 timeline_2024 1 = 560
   \<and> dayToPixelForDuration 0 timeline_2024 3 7 < 7 * dayToPixel 0 timeline_2024 1"
  using week_narrower_than_seven_first_days[of timeline_2024 0 3] isWeekend_2024[of 0]
  by (simp add: zoom_2024)

text \<open>
  C10 (as stated) fails when the timeline starts on a weekend day: \<open>dayToPixel(1)\<close> is the
  width of day 0, here 20, so \<open>7 \<times> dayToPixel(1)\<close> is 140, below the 440 of a week.
\<close>

theorem week_weekend_start_counterexample:
  "dayToPixelForDuration 0 timeline_saturday 0 7 = 440
   \<and> 7 * dayToPixel 0 timeline_saturday 1 = 140
   \<and> \<not> dayToPixelForDuration 0 timeline_saturday 0 7 < 7 * dayToPixel 0 timeline_saturday 1"
proof -
  have "zoom timeline_saturday = 1"
    by (simp add: timeline_saturday_def new_Timeline_def)
  then show ?thesis
    by (simp add: dayToPixelForDuration_week dayToPixel_1 getDayWidth_def isWeekend_saturday)
qed



section \<open>Store mutations: order of the blocks and notifications\<close>

lemma find_None_remove_first: "find p xs = None \<Longrightarrow> remove_first p xs = xs"
  by (induction xs) (auto split: if_splits)

lemma set_remove_first_subset: "set (remove_first p xs) \<subseteq> set xs"
  by (induction xs) auto

lemma sorted_remove_first:
  "sorted (map f xs) \<Longrightarrow> sorted (map f (remove_first p xs))"
proof (induction xs)
  case Nil
  then show ?case by simp
next
  case (Cons x xs)
  then show ?case
    using set_remove_first_subset[of p xs] by auto
qed

lemma map_id_update_first:
  "(\<And>x. g (f x) = g x) \<Longrightarrow> map g (update_first p f xs) = map g xs"
  by (induction xs) auto

lemma blk_id_assign_block [simp]: "blk_id (assign_block u b) = blk_id b"
  by (simp add: assign_block_def)

lemma ann_id_assign_annotation [simp]: "ann_id (assign_annotation u a) = ann_id a"
  by (simp add: assign_annotation_def)

lemma sorted_sortTimelineItems: "sorted (map startDate (items (sortTimelineItems s)))"
  by (simp add: sortTimelineItems_def)

lemma addBlock_state:
  "sorted (map startDate (items (snd (addBlock tz s sd dur lbl rw))))
   \<and> notifications (snd (addBlock tz s sd dur lbl rw)) = notifications s + 1"
  by (simp add: addBlock_def generateId_def Let_def notifyChange_def sortTimelineItems_def)

lemma addAnnotation_state:
  "items (snd (addAnnotation tz s dd r txt)) = items s
   \<and> notifications (snd (addAnnotation tz s dd r txt)) = notifications s + 1"
  by (simp add: addAnnotation_snd notifyChange_def)

lemma removeItem_found:
  "findItem s i = Some it \<Longrightarrow>
     removeItem s i =
       (Some it, notifyChange (s\<lparr>items := remove_first (\<lambda>item. blk_id item = i) (items s)\<rparr>))"
  by (simp add: removeItem_def findItem_def)

lemma removeItem_unknown: "findItem s i = None \<Longrightarrow> removeItem s i = (None, s)"
  by (simp add: removeItem_def findItem_def)


lemma updateItem_unknown:
  "findItem s i = None \<Longrightarrow> find (\<lambda>a. ann_id a = i) (annotations s) = None \<Longrightarrow>
     updateItem tz s i upd = (None, s)"
  by (simp add: updateItem_def findItem_def)

lemma updateItem_block:
  "findItem s i = Some it \<Longrightarrow>
     updateItem tz s i upd =
       (Some (Block (assign_block (block_updates tz s upd) it)),
        notifyChange (sortTimelineItems
          (s\<lparr>items := update_first (\<lambda>it. blk_id it = i) (assign_block (block_updates tz s upd))
                         (items s),
             lastBadgeValue := (case u_badge upd of Some g \<Rightarrow> g | None \<Rightarrow> lastBadgeValue s)\<rparr>)))"
  by (cases "u_startDay upd"; cases "u_badge upd")
    (simp_all add: updateItem_def findItem_def block_updates_def Let_def)

lemma updateItem_block_state:
  assumes "findItem s i = Some it"
  shows "sorted (map startDate (items (snd (updateItem tz s i upd))))"
    and "notifications (snd (updateItem tz s i upd)) = notifications s + 1"
  using assms
  by (simp_all add: updateItem_block notifyChange_def sortTimelineItems_def)

lemma updateItem_annotation_state:
  assumes "findItem s i = None" "find (\<lambda>a. ann_id a = i) (annotations s) = Some a"
  shows "items (snd (updateItem tz s i upd)) = items s"
    and "notifications (snd (updateItem tz s i upd)) = notifications s + 1"
  using assms
  by (simp_all add: updateItem_def findItem_def Let_def notifyChange_def split: option.splits)

lemma ymd_2024: "ymd 2024 1 1 = 19723" "ymd 2024 1 6 = 19728" "ymd 2024 1 9 = 19731"
  "ymd 2023 12 31 = 19722" "ymd 2024 1 5 = 19727" "ymd 2024 1 7 = 19729" "ymd 2024 1 4 = 19726"
  by (simp_all add: ymd_def)

lemma store_scenarioA_utc:
  "store_scenarioA 0 =
     \<lparr>items = [\<lparr>blk_id = 1, startDate = ymd 2024 1 1, duration = 5, label = ''Design'', row = 0,
                 badge = ''XD''\<rparr>,
               \<lparr>blk_id = 2, startDate = ymd 2024 1 6, duration = 3, label = ''Build'', row = 0,
                 badge = ''XD''\<rparr>],
      annotations = [], data_zoom = 1, scrollPosition = 0, timeline_startDate = ymd 2024 1 1,
      lastBadgeValue = ''XD'', offTimeline_blocks = [], nextId = 3, notifications = 2\<rparr>"
  by (simp add: store_scenarioA_def store_2024_def new_TimelineDataModel_def addBlock_def
      generateId_def notifyChange_def sortTimelineItems_def getStartDate_def Date_local_def
      setDate_plus_def toISODate_def msPerDay_def ymd_2024 Let_def)

lemma findItem_scenarioA: "findItem (store_scenarioA 0) 1 \<noteq> None"
  "findItem (store_scenarioA 0) 7 = None"
  "find (\<lambda>a. ann_id a = 7) (annotations (store_scenarioA 0)) = None"
  by (simp_all add: store_scenarioA_utc findItem_def)

text \<open>
  C2 (as the code has it): from a store whose blocks are sorted by \<open>startDate\<close>,
  \<open>addBlock\<close>, \<open>addAnnotation\<close>, \<open>removeItem\<close> of a known id and \<open>updateItem\<close> of a known id
  each leave the blocks sorted and call the change notification exactly once;
  \<open>removeItem\<close> and \<open>updateItem\<close> of an unknown id leave the store as it is, without a
  notification.
\<close>

theorem mutations_sorted_and_notify_once:
  assumes "sorted (map startDate (items s))"
  shows "(sorted (map startDate (items (snd (addBlock tz s sd dur lbl rw))))
          \<and> notifications (snd (addBlock tz s sd dur lbl rw)) = notifications s + 1)
       \<and> (sorted (map startDate (items (snd (addAnnotation tz s dd r txt))))
          \<and> notifications (snd (addAnnotation tz s dd r txt)) = notifications s + 1)
       \<and> (findItem s i \<noteq> None \<longrightarrow>
            sorted (map startDate (items (snd (removeItem s i))))
            \<and> notifications (snd (removeItem s i)) = notifications s + 1)
       \<and> (findItem s i \<noteq> None \<or> find (\<lambda>a. ann_id a = i) (annotations s) \<noteq> None \<longrightarrow>
            sorted (map startDate (items (snd (updateItem tz s i upd))))
            \<and> notifications (snd (updateItem tz s i upd)) = notifications s + 1)
       \<and> (findItem s i = None \<longrightarrow> snd (removeItem s i) = s)
       \<and> (findItem s i = None \<and> find (\<lambda>a. ann_id a = i) (annotations s) = None \<longrightarrow>
            snd (updateItem tz s i upd) = s)"
proof -
  have "findItem s i \<noteq> None \<longrightarrow>
           sorted (map startDate (items (snd (removeItem s i))))
           \<and> notifications (snd (removeItem s i)) = notifications s + 1"
    using assms by (auto simp add: removeItem_found notifyChange_def sorted_remove_first)
  moreover have "findItem s i \<noteq> None \<or> find (\<lambda>a. ann_id a = i) (annotations s) \<noteq> None \<longrightarrow>
           sorted (map startDate (items (snd (updateItem tz s i upd))))
           \<and> notifications (snd (updateItem tz s i upd)) = notifications s + 1"
  proof (cases "findItem s i")
    case None
    then show ?thesis
      using assms by (auto simp add: updateItem_annotation_state)
  next
    case (Some it)
    then show ?thesis
      by (simp add: updateItem_block_state)
  qed
  moreover have "sorted (map startDate (items (snd (addAnnotation tz s dd r txt))))"
    using assms by (simp add: addAnnotation_state)
  ultimately show ?thesis
    using addBlock_state[of tz s sd dur lbl rw] addAnnotation_state[of tz s dd r "txt"]
    by (simp add: removeItem_unknown updateItem_unknown)
qed

theorem mutations_sorted_and_notify_once_witness:
  "sorted (map startDate (items (store_scenarioA 0)))
   \<and> findItem (store_scenarioA 0) 1 \<noteq> None
   \<and> sorted (map startDate (items (snd (removeItem (store_scenarioA 0) 1))))
   \<and> notifications (snd (removeItem (store_scenarioA 0) 1)) = notifications (store_scenarioA 0) + 1
   \<and> sorted (map startDate (items (snd (updateItem 0 (store_scenarioA 0) 1
        (no_updates\<lparr>u_startDay := Some 9\<rparr>)))))
   \<and> notifications (snd (updateItem 0 (store_scenarioA 0) 1 (no_updates\<lparr>u_startDay := Some 9\<rparr>)))
       = notifications (store_scenarioA 0) + 1
   \<and> findItem (store_scenarioA 0) 7 = None
   \<and> find (\<lambda>a. ann_id a = 7) (annotations (store_scenarioA 0)) = None
   \<and> snd (removeItem (store_scenarioA 0) 7) = store_scenarioA 0
   \<and> snd (updateItem 0 (store_scenarioA 0) 7 (no_updates\<lparr>u_startDay := Some 9\<rparr>))
       = store_scenarioA 0"
proof -
  have srt: "sorted (map startDate (items (store_scenarioA 0)))"
    by (simp add: store_scenarioA_utc ymd_2024)
  show ?thesis
    using mutations_sorted_and_notify_once[OF srt, of 0 "RelativeDay 0" 1 "[]" 0 "RelativeDay 0" 0
        "[]" 1 "no_updates\<lparr>u_startDay := Some 9\<rparr>"]
      mutations_sorted_and_notify_once[OF srt, of 0 "RelativeDay 0" 1 "[]" 0 "RelativeDay 0" 0
        "[]" 7 "no_updates\<lparr>u_startDay := Some 9\<rparr>"]
      srt findItem_scenarioA
    by simp
qed

text \<open>
  C2 (as stated) fails: \<open>reorderItems\<close> moves the first block of the sorted store of
  Scenario A behind the second, which leaves the blocks unsorted, and calls no
  notification; \<open>removeItem\<close> of the unknown id 7 calls none either.
\<close>

theorem reorderItems_unsorted_counterexample:
  "sorted (map startDate (items (store_scenarioA 0)))
   \<and> \<not> sorted (map startDate (items (reorderItems (store_scenarioA 0) 1 1)))
   \<and> notifications (reorderItems (store_scenarioA 0) 1 1) = notifications (store_scenarioA 0)
   \<and> notifications (snd (removeItem (store_scenarioA 0) 7)) = notifications (store_scenarioA 0)"
  by (simp add: store_scenarioA_utc reorderItems_def removeItem_def splice_insert_def ymd_2024)


section \<open>Finding items by id\<close>

lemma find_id_unique:
  "distinct (map g xs) \<Longrightarrow> x \<in> set xs \<Longrightarrow> find (\<lambda>y. g y = g x) xs = Some x"
  by (induction xs) (auto simp add: rev_image_eqI)

lemma find_id_None: "i \<notin> g ` set xs \<Longrightarrow> find (\<lambda>y. g y = i) xs = None"
  by (induction xs) auto


lemma find_id_same_set:
  assumes "distinct (map g xs)" "distinct (map g ys)" "set xs = set ys"
  shows "find (\<lambda>y. g y = j) xs = find (\<lambda>y. g y = j) ys"
proof (cases "j \<in> g ` set xs")
  case True
  then obtain x where x: "x \<in> set xs" "g x = j" by auto
  then show ?thesis
    using find_id_unique[OF assms(1) x(1)] find_id_unique[OF assms(2), of x] assms(3) by simp
next
  case False
  then show ?thesis
    using assms(3) by (simp add: find_id_None)
qed

lemma find_update_first:
  assumes "\<And>y. g (f y) = g y"
  shows "find (\<lambda>y. g y = j) (update_first (\<lambda>y. g y = i) f xs)
           = (if j = i then map_option f (find (\<lambda>y. g y = i) xs) else find (\<lambda>y. g y = j) xs)"
  by (induction xs) (auto simp add: assms)

lemma distinct_map_sort_key:
  "distinct (map g (sort_key k xs)) = distinct (map g xs)"
  by (simp add: distinct_map)

lemma find_sort_key:
  "distinct (map g xs) \<Longrightarrow> find (\<lambda>y. g y = j) (sort_key k xs) = find (\<lambda>y. g y = j) xs"
  by (rule find_id_same_set) (simp_all add: distinct_map_sort_key)

lemma updateItem_block_findItem:
  assumes "distinct (map blk_id (items s))" "findItem s i = Some it"
  shows "findItem (snd (updateItem tz s i upd)) j
           = (if j = i then Some (assign_block (block_updates tz s upd) it) else findItem s j)"
    and "distinct (map blk_id (items (snd (updateItem tz s i upd))))"
    and "timeline_startDate (snd (updateItem tz s i upd)) = timeline_startDate s"
    and "annotations (snd (updateItem tz s i upd)) = annotations s"
proof -
  let ?ys = "update_first (\<lambda>it. blk_id it = i) (assign_block (block_updates tz s upd)) (items s)"
  have ids: "map blk_id ?ys = map blk_id (items s)"
    by (rule map_id_update_first) simp
  have items: "items (snd (updateItem tz s i upd)) = sort_key startDate ?ys"
    using assms(2) by (simp add: updateItem_block notifyChange_def sortTimelineItems_def)
  show "distinct (map blk_id (items (snd (updateItem tz s i upd))))"
    using assms(1) by (simp add: items distinct_map_sort_key ids)
  have "findItem (snd (updateItem tz s i upd)) j = find (\<lambda>y. blk_id y = j) ?ys"
    unfolding findItem_def items using assms(1) by (intro find_sort_key) (simp add: ids)
  also have "\<dots> = (if j = i then Some (assign_block (block_updates tz s upd) it) else findItem s j)"
    using assms(2) by (simp add: find_update_first findItem_def)
  finally show "findItem (snd (updateItem tz s i upd)) j
           = (if j = i then Some (assign_block (block_updates tz s upd) it) else findItem s j)" .
  show "timeline_startDate (snd (updateItem tz s i upd)) = timeline_startDate s"
    using assms(2) by (simp add: updateItem_block notifyChange_def sortTimelineItems_def)
  show "annotations (snd (updateItem tz s i upd)) = annotations s"
    using assms(2) by (simp add: updateItem_block notifyChange_def sortTimelineItems_def)
qed



section \<open>Unknown ids and clamped moves\<close>

lemma updateItem_annotation:
  "findItem s i = None \<Longrightarrow> find (\<lambda>a. ann_id a = i) (annotations s) = Some a \<Longrightarrow>
     updateItem tz s i upd =
       (Some (Annotation (assign_annotation (annotation_updates tz s upd) a)),
        notifyChange (s\<lparr>annotations :=
          update_first (\<lambda>a. ann_id a = i) (assign_annotation (annotation_updates tz s upd))
            (annotations s)\<rparr>))"
  by (cases "u_day upd") (simp_all add: updateItem_def findItem_def annotation_updates_def Let_def)

lemma dataModel_render [simp]: "dataModel (render tml) = dataModel tml"
  by (simp add: render_def Let_def)








lemma getDateFromRelativeDay_utc: "getDateFromRelativeDay 0 s n = timeline_startDate s + n"
  by (simp add: getDateFromRelativeDay_eq)

lemma getRelativeDayFromDate_utc: "getRelativeDayFromDate 0 s d = d - timeline_startDate s"
  by (simp add: getRelativeDayFromDate_eq Math_round_div_def msPerDay_def)










section \<open>Resizing: the duration floor\<close>

lemma pixelToDay_dayStart:
  assumes "0 \<le> d" "d \<le> 10001" "0 < zoom tml"
  shows "pixelToDay tz tml (dayStart tz tml d * zoom tml) = d"
proof -
  have "pixelToDay_walk tz tml (dayStart tz tml d) 0 0 = Found d"
    by (rule walk_finds_boundary) (simp_all add: dayStart_0 assms)
  then show ?thesis
    using assms(3) by (simp add: pixelToDay_def returned_day_def)
qed

lemma dayStart_7: "dayStart tz tml 7 = 440"
  using week_width[of tz tml 0] by (simp add: dayStart_def)

lemma dayToPixelForDuration_1:
  "dayToPixelForDuration tz tml startDay 1 = getDayWidth tz tml startDay * zoom tml"
proof -
  have "(\<Sum>k = 0..<1. getDayWidth tz tml (startDay + k)) = getDayWidth tz tml startDay"
    by (simp add: sum_int_first)
  then show ?thesis
    by (simp add: dayToPixelForDuration_def dayToPixelForDuration_loop_sum)
qed

lemma timeline_scenarioA_fields:
  "dataModel (timeline_scenarioA tz) = store_scenarioA tz"
  "zoom (timeline_scenarioA tz) = 1"
  "rendered (timeline_scenarioA tz) = map blk_id (items (store_scenarioA tz))"
  by (simp_all add: timeline_scenarioA_def render_def new_Timeline_def Let_def store_scenarioA_def
      addBlock_def generateId_def notifyChange_def sortTimelineItems_def store_2024_def
      new_TimelineDataModel_def)

lemma updateItem_other:
  assumes "distinct (map blk_id (items s))" "j \<noteq> i"
  shows "findItem (snd (updateItem tz s j upd)) i = findItem s i"
    and "distinct (map blk_id (items (snd (updateItem tz s j upd))))"
    and "timeline_startDate (snd (updateItem tz s j upd)) = timeline_startDate s"
proof -
  have "findItem (snd (updateItem tz s j upd)) i = findItem s i
      \<and> distinct (map blk_id (items (snd (updateItem tz s j upd))))
      \<and> timeline_startDate (snd (updateItem tz s j upd)) = timeline_startDate s"
  proof (cases "findItem s j")
    case (Some it)
    then show ?thesis
      using updateItem_block_findItem[OF assms(1) Some, of tz upd] assms(2) by simp
  next
    case None
    show ?thesis
    proof (cases "find (\<lambda>a. ann_id a = j) (annotations s)")
      case (Some a)
      then show ?thesis
        using assms(1) None
        by (simp add: updateItem_annotation[OF None Some] notifyChange_def findItem_def)
    next
      case None': None
      then show ?thesis
        using assms(1) None by (simp add: updateItem_unknown)
    qed
  qed
  then show "findItem (snd (updateItem tz s j upd)) i = findItem s i"
    and "distinct (map blk_id (items (snd (updateItem tz s j upd))))"
    and "timeline_startDate (snd (updateItem tz s j upd)) = timeline_startDate s"
    by simp_all
qed

lemma foldl_updateItem_other:
  assumes "distinct (map blk_id (items dm))" "\<forall>pb\<in>set pbs. pb_component pb \<noteq> i"
  shows "findItem (foldl (\<lambda>dm pb. snd (updateItem tz dm (pb_component pb) (U dm pb))) dm pbs) i
           = findItem dm i"
  using assms
proof (induction pbs arbitrary: dm)
  case Nil
  then show ?case by simp
next
  case (Cons pb pbs)
  have ne: "pb_component pb \<noteq> i" using Cons.prems(2) by simp
  have "findItem (foldl (\<lambda>dm pb. snd (updateItem tz dm (pb_component pb) (U dm pb)))
          (snd (updateItem tz dm (pb_component pb) (U dm pb))) pbs) i
        = findItem (snd (updateItem tz dm (pb_component pb) (U dm pb))) i"
    using Cons.prems(2) updateItem_other(2)[OF Cons.prems(1) ne]
    by (intro Cons.IH) simp_all
  then show ?case
    using updateItem_other(1)[OF Cons.prems(1) ne] by simp
qed

lemma findBlocksToRight_other:
  "\<forall>pb\<in>set (findBlocksToRight tz tml b). pb_component pb \<noteq> blk_id b"
  by (auto simp add: findBlocksToRight_def Let_def)

lemma startResize_fields:
  "rs_component (startResize tz tml b w x l) = blk_id b"
  "blocksToPush (startResize tz tml b w x l) = findBlocksToRight tz tml b"
  "initialDuration (startResize tz tml b w x l) = duration b"
  "startX (startResize tz tml b w x l) = x"
  "initialWidth (startResize tz tml b w x l) = w"
  "initialLeft (startResize tz tml b w x l) = l"
  "initialRelativeDay (startResize tz tml b w x l)
     = getRelativeDayFromDate tz (dataModel tml) (startDate b)"
  by (simp_all add: startResize_def Let_def)

lemma snappedDuration_ge_1: "1 \<le> snappedDuration tz rs tml clientX"
  by (simp add: snappedDuration_def Let_def)

lemma snappedDuration_floor:
  assumes "initialWidth rs + (clientX - startX rs)
             \<le> dayToPixelForDuration tz tml (initialRelativeDay rs) 1"
  shows "snappedDuration tz rs tml clientX
           = snappedDuration tz rs tml
               (startX rs + dayToPixelForDuration tz tml (initialRelativeDay rs) 1
                  - initialWidth rs)"
  using assms by (simp add: snappedDuration_def Let_def max_def)

lemma handleResizeEnd_snapped:
  "snappedDuration tz rs tml x = snappedDuration tz rs tml y \<Longrightarrow>
     handleResizeEnd tz rs tml x = handleResizeEnd tz rs tml y"
  by (simp add: handleResizeEnd_def Let_def)

lemma block_design_utc:
  "block_design 0 = \<lparr>blk_id = 1, startDate = 19723, duration = 5, label = ''Design'', row = 0,
                 badge = ''XD''\<rparr>"
  by (simp add: block_design_def store_2024_def new_TimelineDataModel_def addBlock_def
      generateId_def notifyChange_def sortTimelineItems_def getStartDate_def Date_local_def
      setDate_plus_def toISODate_def msPerDay_def ymd_2024 Let_def)

lemma weekday_scenarioA: "weekday (timeline_scenarioA tz) day = (day + 1) mod 7"
proof -
  have "timeline_startDate (store_scenarioA tz) = 19723"
    by (simp add: store_scenarioA_def addBlock_def generateId_def notifyChange_def
        sortTimelineItems_def store_2024_def new_TimelineDataModel_def ymd_2024 Let_def)
  then have "weekday (timeline_scenarioA tz) day = (19723 + day + 4) mod 7"
    by (simp add: weekday_def timeline_scenarioA_fields)
  also have "19723 + day + 4 = (day + 1) + 7 * 2818"
    by simp
  also have "((day + 1) + 7 * 2818) mod 7 = (day + 1) mod 7"
    by (simp only: mod_mult_self2)
  finally show ?thesis .
qed

lemma dayStart_1_scenarioA: "dayStart tz (timeline_scenarioA tz') 1 = 80"
  using dayStart_Suc[of 0 tz "timeline_scenarioA tz'"]
  by (simp add: dayStart_0 getDayWidth_weekday weekday_scenarioA)

lemma startResize_utc:
  "startResize 0 (timeline_scenarioA 0) (block_design 0) 400 500 0 =
     \<lparr>rs_component = 1, startX = 500, initialWidth = 400, initialDuration = 5, initialLeft = 0,
      initialRightEdge = 5, initialRelativeDay = 0,
      blocksToPush = [\<lparr>pb_component = 2, pb_initialStartDate = 19728,
                        pb_initialRelativeDay = 5\<rparr>]\<rparr>"
  by (simp add: startResize_def findBlocksToRight_def timeline_scenarioA_fields
      store_scenarioA_utc block_design_utc getRelativeDayFromDate_utc ymd_2024 Let_def)

lemma minWidth_utc: "dayToPixelForDuration 0 (timeline_scenarioA 0) 0 1 = 80"
  by (simp add: dayToPixelForDuration_1 getDayWidth_weekday weekday_scenarioA
      timeline_scenarioA_fields)

lemma snapped_utc_floor:
  "snappedDuration 0 (startResize 0 (timeline_scenarioA 0) (block_design 0) 400 500 0)
     (timeline_scenarioA 0) (- 100000) = 1"
proof -
  have "pixelToDay 0 (timeline_scenarioA 0)
          (dayStart 0 (timeline_scenarioA 0) 1 * zoom (timeline_scenarioA 0)) = 1"
    by (rule pixelToDay_dayStart) (simp_all add: timeline_scenarioA_fields)
  then have "pixelToDay 0 (timeline_scenarioA 0) 80 = 1"
    by (simp add: dayStart_1_scenarioA timeline_scenarioA_fields)
  then show ?thesis
    by (simp add: snappedDuration_def startResize_utc minWidth_utc Let_def)
qed

text \<open>
  C7: for a block of a store with distinct ids, resized by a gesture that started on it,
  and for every pointer position at release, the store holds the block with the
  committed duration, which is at least 1. A pointer released at or below the one-day
  floor commits exactly what a release at the floor commits: the same duration, hence
  the same shift of the pushed blocks and the same store.
\<close>

theorem resize_duration_floor:
  assumes "distinct (map blk_id (items (dataModel tml)))"
    and "findItem (dataModel tml) (blk_id b) = Some b"
    and "rs = startResize tz tml b rect_width pointerX style_left"
  shows "findItem (dataModel (handleResizeEnd tz rs tml clientX)) (blk_id b)
           = Some (b\<lparr>duration := snappedDuration tz rs tml clientX\<rparr>)
       \<and> 1 \<le> snappedDuration tz rs tml clientX
       \<and> (initialWidth rs + (clientX - startX rs)
             \<le> dayToPixelForDuration tz tml (initialRelativeDay rs) 1 \<longrightarrow>
           snappedDuration tz rs tml clientX
             = snappedDuration tz rs tml
                 (startX rs + dayToPixelForDuration tz tml (initialRelativeDay rs) 1
                    - initialWidth rs)
           \<and> handleResizeEnd tz rs tml clientX
             = handleResizeEnd tz rs tml
                 (startX rs + dayToPixelForDuration tz tml (initialRelativeDay rs) 1
                    - initialWidth rs))"
proof -
  let ?snapped = "snappedDuration tz rs tml clientX"
  let ?upd = "no_updates\<lparr>u_duration := Some ?snapped\<rparr>"
  let ?dm1 = "snd (updateItem tz (dataModel tml) (blk_id b) ?upd)"
  let ?U = "\<lambda>dm pb. no_updates\<lparr>u_startDate :=
              Some (getDateFromRelativeDay tz dm
                      (pb_initialRelativeDay pb + (?snapped - initialDuration rs)))\<rparr>"
  have dm1: "findItem ?dm1 (blk_id b) = Some (b\<lparr>duration := ?snapped\<rparr>)"
    using updateItem_block_findItem(1)[OF assms(1,2), of tz ?upd "blk_id b"]
    by (simp add: block_updates_def no_updates_def assign_block_def)
  have d1: "distinct (map blk_id (items ?dm1))"
    by (rule updateItem_block_findItem(2)[OF assms(1,2)])
  have "dataModel (handleResizeEnd tz rs tml clientX)
          = foldl (\<lambda>dm pb. snd (updateItem tz dm (pb_component pb) (?U dm pb))) ?dm1
              (findBlocksToRight tz tml b)"
    by (simp add: handleResizeEnd_def Let_def assms(3) startResize_fields)
  then have "findItem (dataModel (handleResizeEnd tz rs tml clientX)) (blk_id b)
          = findItem ?dm1 (blk_id b)"
    using foldl_updateItem_other[OF d1 findBlocksToRight_other, of tz ?U] by simp
  then have found: "findItem (dataModel (handleResizeEnd tz rs tml clientX)) (blk_id b)
           = Some (b\<lparr>duration := ?snapped\<rparr>)"
    using dm1 by simp
  have absorbed: "snappedDuration tz rs tml clientX
             = snappedDuration tz rs tml
                 (startX rs + dayToPixelForDuration tz tml (initialRelativeDay rs) 1
                    - initialWidth rs)
           \<and> handleResizeEnd tz rs tml clientX
             = handleResizeEnd tz rs tml
                 (startX rs + dayToPixelForDuration tz tml (initialRelativeDay rs) 1
                    - initialWidth rs)"
    if "initialWidth rs + (clientX - startX rs)
             \<le> dayToPixelForDuration tz tml (initialRelativeDay rs) 1"
    using snappedDuration_floor[OF that] handleResizeEnd_snapped by blast
  show ?thesis
    using found snappedDuration_ge_1[of tz rs tml clientX] absorbed by blast
qed

theorem resize_duration_floor_witness:
  "distinct (map blk_id (items (dataModel (timeline_scenarioA 0))))
   \<and> findItem (dataModel (timeline_scenarioA 0)) (blk_id (block_design 0)) = Some (block_design 0)
   \<and> (400::real) + (- 100000 - 500) \<le> dayToPixelForDuration 0 (timeline_scenarioA 0) 0 1
   \<and> findItem (dataModel (handleResizeEnd 0
          (startResize 0 (timeline_scenarioA 0) (block_design 0) 400 500 0)
          (timeline_scenarioA 0) (- 100000))) 1
       = Some ((block_design 0)\<lparr>duration := 1\<rparr>)
   \<and> handleResizeEnd 0 (startResize 0 (timeline_scenarioA 0) (block_design 0) 400 500 0)
          (timeline_scenarioA 0) (- 100000)
       = handleResizeEnd 0 (startResize 0 (timeline_scenarioA 0) (block_design 0) 400 500 0)
          (timeline_scenarioA 0) 180"
proof -
  have d: "distinct (map blk_id (items (dataModel (timeline_scenarioA 0))))"
    by (simp add: timeline_scenarioA_fields store_scenarioA_utc)
  have f: "findItem (dataModel (timeline_scenarioA 0)) (blk_id (block_design 0))
             = Some (block_design 0)"
    by (simp add: timeline_scenarioA_fields store_scenarioA_utc block_design_utc findItem_def
        ymd_2024)
  let ?rs = "startResize 0 (timeline_scenarioA 0) (block_design 0) 400 500 0"
  note T = resize_duration_floor[OF d f refl, of 0 400 500 0 "- 100000"]
  have m: "(400::real) + (- 100000 - 500) \<le> dayToPixelForDuration 0 (timeline_scenarioA 0) 0 1"
    by (simp add: minWidth_utc)
  have m': "initialWidth ?rs + (- 100000 - startX ?rs)
              \<le> dayToPixelForDuration 0 (timeline_scenarioA 0) (initialRelativeDay ?rs) 1"
    by (simp add: startResize_utc minWidth_utc)
  have x0: "startX ?rs + dayToPixelForDuration 0 (timeline_scenarioA 0) (initialRelativeDay ?rs) 1
              - initialWidth ?rs = 180"
    by (simp add: startResize_utc minWidth_utc)
  have "findItem (dataModel (handleResizeEnd 0 ?rs (timeline_scenarioA 0) (- 100000)))
          (blk_id (block_design 0))
          = Some ((block_design 0)\<lparr>duration := snappedDuration 0 ?rs (timeline_scenarioA 0)
                                                   (- 100000)\<rparr>)"
    using T by blast
  then have c1: "findItem (dataModel (handleResizeEnd 0 ?rs (timeline_scenarioA 0) (- 100000))) 1
          = Some ((block_design 0)\<lparr>duration := 1\<rparr>)"
    by (simp only: snapped_utc_floor) (simp add: block_design_utc)
  have c2: "handleResizeEnd 0 ?rs (timeline_scenarioA 0) (- 100000)
          = handleResizeEnd 0 ?rs (timeline_scenarioA 0) 180"
    using T m' by (simp only: x0)
  show ?thesis
    using d f m c1 c2 by blast
qed


section \<open>Resizing: the push on a host at or west of UTC\<close>

lemma find_map_option: "find P (map f xs) = map_option f (find (\<lambda>x. P (f x)) xs)"
  by (induction xs) auto

lemma find_filter_unique:
  assumes "distinct (map g xs)" "x \<in> set xs"
  shows "find (\<lambda>y. g y = g x) (filter p xs) = (if p x then Some x else None)"
proof (cases "p x")
  case True
  have "distinct (map g (filter p xs))"
    using assms(1) by (rule distinct_map_filter)
  moreover have "x \<in> set (filter p xs)"
    using assms(2) True by simp
  ultimately show ?thesis
    using True by (simp add: find_id_unique)
next
  case False
  have inj: "inj_on g (set xs)"
    using assms(1) by (simp add: distinct_map)
  have "g x \<notin> g ` set (filter p xs)"
  proof
    assume "g x \<in> g ` set (filter p xs)"
    then obtain y where y: "y \<in> set xs" "p y" "g y = g x" by auto
    then have "y = x" using inj assms(2) by (auto dest: inj_onD)
    then show False using y(2) False by simp
  qed
  then show ?thesis
    using False by (simp add: find_id_None)
qed

lemma assign_startDate:
  "assign_block (block_updates tz s (no_updates\<lparr>u_startDate := Some v\<rparr>)) it = it\<lparr>startDate := v\<rparr>"
  by (simp add: block_updates_def no_updates_def assign_block_def)

lemma getDateFromRelativeDay_west:
  "- 720 < tz \<Longrightarrow> tz \<le> 0 \<Longrightarrow> getDateFromRelativeDay tz s n = timeline_startDate s + n"
  by (simp add: getDateFromRelativeDay_eq tz_west_floor)

lemma getRelativeDayFromDate_west:
  "- 720 < tz \<Longrightarrow> tz \<le> 0 \<Longrightarrow> getRelativeDayFromDate tz s d = d - timeline_startDate s"
  by (simp add: getRelativeDayFromDate_eq tz_west_round)

lemma foldl_push_findItem:
  assumes "distinct (map blk_id (items dm))"
    and "distinct (map pb_component pbs)"
    and "\<forall>pb\<in>set pbs. findItem dm (pb_component pb) \<noteq> None"
  shows "findItem
           (foldl (\<lambda>dm pb. snd (updateItem tz dm (pb_component pb)
                      (no_updates\<lparr>u_startDate := Some (V (timeline_startDate dm) pb)\<rparr>)))
              dm pbs) j
         = (case find (\<lambda>pb. pb_component pb = j) pbs of
              None \<Rightarrow> findItem dm j
            | Some pb \<Rightarrow>
                map_option (\<lambda>it. it\<lparr>startDate := V (timeline_startDate dm) pb\<rparr>) (findItem dm j))"
  using assms
proof (induction pbs arbitrary: dm)
  case Nil
  then show ?case by simp
next
  case (Cons pb pbs)
  let ?upd = "no_updates\<lparr>u_startDate := Some (V (timeline_startDate dm) pb)\<rparr>"
  let ?dm' = "snd (updateItem tz dm (pb_component pb) ?upd)"
  obtain it where it: "findItem dm (pb_component pb) = Some it"
    using Cons.prems(3) by auto
  note upd = updateItem_block_findItem[OF Cons.prems(1) it, of tz ?upd]
  have f': "findItem ?dm' k
              = (if k = pb_component pb then Some (it\<lparr>startDate := V (timeline_startDate dm) pb\<rparr>)
                 else findItem dm k)" for k
    using upd(1)[of k] by (simp add: assign_startDate)
  have others: "\<forall>q\<in>set pbs. pb_component q \<noteq> pb_component pb"
    using Cons.prems(2) by (auto simp add: rev_image_eqI)
  have ex': "\<forall>q\<in>set pbs. findItem ?dm' (pb_component q) \<noteq> None"
    using Cons.prems(3) others by (simp add: f')
  have none: "find (\<lambda>q. pb_component q = pb_component pb) pbs = None"
    using others by (simp add: find_None_iff)
  have IH: "findItem
           (foldl (\<lambda>dm pb. snd (updateItem tz dm (pb_component pb)
                      (no_updates\<lparr>u_startDate := Some (V (timeline_startDate dm) pb)\<rparr>)))
              ?dm' pbs) j
         = (case find (\<lambda>pb. pb_component pb = j) pbs of
              None \<Rightarrow> findItem ?dm' j
            | Some q \<Rightarrow>
                map_option (\<lambda>it. it\<lparr>startDate := V (timeline_startDate ?dm') q\<rparr>)
                  (findItem ?dm' j))"
    using Cons.prems(2) upd(2) ex' by (intro Cons.IH) simp_all
  show ?case
  proof (cases "j = pb_component pb")
    case True
    then show ?thesis
      using IH none it by (simp add: f')
  next
    case False
    then show ?thesis
      using IH upd(3) by (auto simp add: f' split: option.splits)
  qed
qed

lemma findBlocksToRight_components:
  "map pb_component (findBlocksToRight tz tml b)
     = map blk_id (filter (\<lambda>it. blk_id it \<noteq> blk_id b \<and> row it = row b
          \<and> getRelativeDayFromDate tz (dataModel tml) (startDate it)
               \<ge> getRelativeDayFromDate tz (dataModel tml) (startDate b) + duration b
          \<and> blk_id it \<in> set (rendered tml)) (items (dataModel tml)))"
  by (simp add: findBlocksToRight_def Let_def comp_def)

lemma findBlocksToRight_find:
  assumes "distinct (map blk_id (items (dataModel tml)))" "X \<in> set (items (dataModel tml))"
  shows "find (\<lambda>pb. pb_component pb = blk_id X) (findBlocksToRight tz tml b)
           = (if blk_id X \<noteq> blk_id b \<and> row X = row b
                 \<and> getRelativeDayFromDate tz (dataModel tml) (startDate X)
                      \<ge> getRelativeDayFromDate tz (dataModel tml) (startDate b) + duration b
                 \<and> blk_id X \<in> set (rendered tml)
              then Some \<lparr>pb_component = blk_id X, pb_initialStartDate = startDate X,
                         pb_initialRelativeDay =
                           getRelativeDayFromDate tz (dataModel tml) (startDate X)\<rparr>
              else None)"
  unfolding findBlocksToRight_def Let_def
  by (simp add: find_map_option find_filter_unique[OF assms])

text \<open>
  The push on a host at or west of UTC (down to UTC-12): in a store with distinct ids
  whose blocks all have a component, every other block of the resized block's row whose
  relative start day is at or after the pre-resize right edge moves by the change of the
  duration, and every other block stays as it is.
\<close>

lemma resize_push_west_of_utc:
  assumes tz: "- 720 < tz" "tz \<le> 0"
    and d: "distinct (map blk_id (items (dataModel tml)))"
    and b: "findItem (dataModel tml) (blk_id b) = Some b"
    and r: "blk_id ` set (items (dataModel tml)) \<subseteq> set (rendered tml)"
    and rs: "rs = startResize tz tml b rect_width pointerX style_left"
    and X: "X \<in> set (items (dataModel tml))" "blk_id X \<noteq> blk_id b"
  shows "findItem (dataModel (handleResizeEnd tz rs tml clientX)) (blk_id X)
           = Some (if row X = row b
                      \<and> getRelativeDayFromDate tz (dataModel tml) (startDate X)
                           \<ge> getRelativeDayFromDate tz (dataModel tml) (startDate b) + duration b
                   then X\<lparr>startDate := startDate X
                                          + (snappedDuration tz rs tml clientX - duration b)\<rparr>
                   else X)"
proof -
  let ?dm = "dataModel tml"
  let ?snapped = "snappedDuration tz rs tml clientX"
  let ?delta = "?snapped - duration b"
  let ?dm1 = "snd (updateItem tz ?dm (blk_id b) (no_updates\<lparr>u_duration := Some ?snapped\<rparr>))"
  let ?V = "\<lambda>start pb. start + (pb_initialRelativeDay pb + ?delta)"
  let ?pbs = "findBlocksToRight tz tml b"
  note u1 = updateItem_block_findItem[OF d b, of tz "no_updates\<lparr>u_duration := Some ?snapped\<rparr>"]
  have f1: "findItem ?dm1 k = findItem ?dm k" if "k \<noteq> blk_id b" for k
    using u1(1)[of k] that by simp
  have in_items: "findItem ?dm (blk_id Y) = Some Y" if "Y \<in> set (items ?dm)" for Y
    unfolding findItem_def using d that by (rule find_id_unique)
  have dist_pbs: "distinct (map pb_component ?pbs)"
    unfolding findBlocksToRight_components using d by (rule distinct_map_filter)
  have ex: "\<forall>pb\<in>set ?pbs. findItem ?dm1 (pb_component pb) \<noteq> None"
  proof
    fix pb assume "pb \<in> set ?pbs"
    then obtain Y where Y: "Y \<in> set (items ?dm)" "blk_id Y \<noteq> blk_id b" "pb_component pb = blk_id Y"
      by (auto simp add: findBlocksToRight_def Let_def)
    then show "findItem ?dm1 (pb_component pb) \<noteq> None"
      by (simp add: f1 in_items)
  qed
  have "dataModel (handleResizeEnd tz rs tml clientX)
          = foldl (\<lambda>dm pb. snd (updateItem tz dm (pb_component pb)
                      (no_updates\<lparr>u_startDate := Some (?V (timeline_startDate dm) pb)\<rparr>)))
              ?dm1 ?pbs"
    by (simp add: handleResizeEnd_def Let_def rs startResize_fields
        getDateFromRelativeDay_west[OF tz])
  then have "findItem (dataModel (handleResizeEnd tz rs tml clientX)) (blk_id X)
          = (case find (\<lambda>pb. pb_component pb = blk_id X) ?pbs of
               None \<Rightarrow> findItem ?dm1 (blk_id X)
             | Some pb \<Rightarrow>
                 map_option (\<lambda>it. it\<lparr>startDate := ?V (timeline_startDate ?dm1) pb\<rparr>)
                   (findItem ?dm1 (blk_id X)))"
    using foldl_push_findItem[OF u1(2) dist_pbs ex, of tz ?V "blk_id X"] by simp
  moreover have "blk_id X \<in> set (rendered tml)"
    using r X(1) by auto
  ultimately show ?thesis
    using X(2)
    by (simp add: findBlocksToRight_find[OF d X(1)] f1 in_items[OF X(1)] u1(3)
        getRelativeDayFromDate_west[OF tz])
qed

lemma dayStart_8_scenarioA: "dayStart tz (timeline_scenarioA tz') 8 = 520"
  using dayStart_Suc[of 7 tz "timeline_scenarioA tz'"]
  by (simp add: dayStart_7 getDayWidth_weekday weekday_scenarioA)

lemma snapped_utc_8:
  "snappedDuration 0 (startResize 0 (timeline_scenarioA 0) (block_design 0) 400 500 0)
     (timeline_scenarioA 0) 620 = 8"
proof -
  have "pixelToDay 0 (timeline_scenarioA 0)
          (dayStart 0 (timeline_scenarioA 0) 8 * zoom (timeline_scenarioA 0)) = 8"
    by (rule pixelToDay_dayStart) (simp_all add: timeline_scenarioA_fields)
  then have "pixelToDay 0 (timeline_scenarioA 0) 520 = 8"
    by (simp add: dayStart_8_scenarioA timeline_scenarioA_fields)
  then show ?thesis
    by (simp add: snappedDuration_def startResize_utc minWidth_utc Let_def)
qed

text \<open>
  Scenario A on a UTC host: the blocks are stored at 2024-01-01 and 2024-01-06, and
  resizing the first to duration 8 moves the second to 2024-01-09 with its duration 3.
\<close>

lemma resize_push_scenarioA_utc:
  "map startDate (items (store_scenarioA 0)) = [ymd 2024 1 1, ymd 2024 1 6]
   \<and> map startDate (items (dataModel (handleResizeEnd 0
          (startResize 0 (timeline_scenarioA 0) (block_design 0) 400 500 0)
          (timeline_scenarioA 0) 620))) = [ymd 2024 1 1, ymd 2024 1 9]
   \<and> map duration (items (dataModel (handleResizeEnd 0
          (startResize 0 (timeline_scenarioA 0) (block_design 0) 400 500 0)
          (timeline_scenarioA 0) 620))) = [8, 3]"
  by (simp add: handleResizeEnd_def snapped_utc_8 Let_def)
     (simp add: startResize_utc timeline_scenarioA_fields store_scenarioA_utc updateItem_def
        no_updates_def assign_block_def notifyChange_def sortTimelineItems_def
        getDateFromRelativeDay_utc ymd_2024 Let_def)


section \<open>Resizing: the push on a host east of UTC\<close>

lemma store_scenarioA_east:
  "store_scenarioA 60 =
     \<lparr>items = [\<lparr>blk_id = 1, startDate = 19722, duration = 5, label = ''Design'', row = 0,
                 badge = ''XD''\<rparr>,
               \<lparr>blk_id = 2, startDate = 19727, duration = 3, label = ''Build'', row = 0,
                 badge = ''XD''\<rparr>],
      annotations = [], data_zoom = 1, scrollPosition = 0, timeline_startDate = 19723,
      lastBadgeValue = ''XD'', offTimeline_blocks = [], nextId = 3, notifications = 2\<rparr>"
  by (simp add: store_scenarioA_def store_2024_def new_TimelineDataModel_def addBlock_def
      generateId_def notifyChange_def sortTimelineItems_def getStartDate_def Date_local_def
      setDate_plus_def toISODate_def msPerDay_def ymd_2024 Let_def)

lemma block_design_east:
  "block_design 60 = \<lparr>blk_id = 1, startDate = 19722, duration = 5, label = ''Design'', row = 0,
                 badge = ''XD''\<rparr>"
  by (simp add: block_design_def store_2024_def new_TimelineDataModel_def addBlock_def
      generateId_def notifyChange_def sortTimelineItems_def getStartDate_def Date_local_def
      setDate_plus_def toISODate_def msPerDay_def ymd_2024 Let_def)

lemma rel_east: "getRelativeDayFromDate 60 s d = d - timeline_startDate s"
  by (simp add: getRelativeDayFromDate_eq Math_round_div_def msPerDay_def)

lemma date_east: "getDateFromRelativeDay 60 s n = timeline_startDate s + n - 1"
  by (simp add: getDateFromRelativeDay_eq msPerDay_def)

lemma startResize_east:
  "startResize 60 (timeline_scenarioA 60) (block_design 60) 340 0 0 =
     \<lparr>rs_component = 1, startX = 0, initialWidth = 340, initialDuration = 5, initialLeft = 0,
      initialRightEdge = 4, initialRelativeDay = - 1,
      blocksToPush = [\<lparr>pb_component = 2, pb_initialStartDate = 19727,
                        pb_initialRelativeDay = 4\<rparr>]\<rparr>"
  by (simp add: startResize_def findBlocksToRight_def timeline_scenarioA_fields
      store_scenarioA_east block_design_east rel_east Let_def)

lemma snapped_east:
  "snappedDuration 60 (startResize 60 (timeline_scenarioA 60) (block_design 60) 340 0 0)
     (timeline_scenarioA 60) 100 = 8"
proof -
  have "pixelToDay 60 (timeline_scenarioA 60)
          (dayStart 60 (timeline_scenarioA 60) 7 * zoom (timeline_scenarioA 60)) = 7"
    by (rule pixelToDay_dayStart) (simp_all add: timeline_scenarioA_fields)
  then have "pixelToDay 60 (timeline_scenarioA 60) 440 = 7"
    by (simp add: dayStart_7 timeline_scenarioA_fields)
  then show ?thesis
    by (simp add: snappedDuration_def startResize_east dayToPixelForDuration_1 getDayWidth_def
        timeline_scenarioA_fields Let_def)
qed

text \<open>
  C3 (the code at a failing input): Scenario A on a host one hour east of UTC. The two
  \<open>addBlock\<close> calls store 2023-12-31 and 2024-01-05. Resizing the first block to duration 8
  (\<open>\<Delta> = 3\<close>) moves the second block to 2024-01-07, a shift of two days, not from
  2024-01-06 to 2024-01-09.
\<close>

theorem resize_push_utc_plus_1:
  "map blk_id (items (store_scenarioA 60)) = [1, 2]
   \<and> map startDate (items (store_scenarioA 60)) = [ymd 2023 12 31, ymd 2024 1 5]
   \<and> map duration (items (store_scenarioA 60)) = [5, 3]
   \<and> snappedDuration 60 (startResize 60 (timeline_scenarioA 60) (block_design 60) 340 0 0)
        (timeline_scenarioA 60) 100 = 8
   \<and> map blk_id (items (dataModel (handleResizeEnd 60
          (startResize 60 (timeline_scenarioA 60) (block_design 60) 340 0 0)
          (timeline_scenarioA 60) 100))) = [1, 2]
   \<and> map startDate (items (dataModel (handleResizeEnd 60
          (startResize 60 (timeline_scenarioA 60) (block_design 60) 340 0 0)
          (timeline_scenarioA 60) 100))) = [ymd 2023 12 31, ymd 2024 1 7]
   \<and> map duration (items (dataModel (handleResizeEnd 60
          (startResize 60 (timeline_scenarioA 60) (block_design 60) 340 0 0)
          (timeline_scenarioA 60) 100))) = [8, 3]"
  by (simp add: handleResizeEnd_def snapped_east Let_def)
     (simp add: startResize_east timeline_scenarioA_fields store_scenarioA_east updateItem_def
        no_updates_def assign_block_def notifyChange_def sortTimelineItems_def date_east
        ymd_2024 Let_def)



section \<open>Loading a malformed document\<close>

text \<open>A text that \<open>JSON.parse\<close> rejects leaves the state as it was.\<close>

lemma fromJSON_unparseable: "fromJSON tz now st Unparseable = (False, st)"
  by (simp add: fromJSON_def)

lemma fromJSON_success_example:
  "fst (fromJSON tz now st (Document (this_data store_2024))) = True"
  by (simp add: fromJSON_def this_data_def Let_def split: start_field.splits)

text \<open>
  C4 (the code at a failing input): the store of Scenario A loads the document \<^verbatim>\<open>{}\<close>.
  \<open>fromJSON\<close> returns \<open>false\<close>, and \<open>this.data\<close> is the empty document: the blocks are
  gone. A document with a timeline but without \<open>offTimeline\<close> fails in the same way after
  its timeline has been installed and migrated.
\<close>

theorem fromJSON_failure_replaces_data:
  "fromJSON 0 0 (state_of (store_scenarioA 0)) (Document doc_empty)
     = (False, \<lparr>ms_data = doc_empty, ms_nextId = 3\<rparr>)
   \<and> snd (fromJSON 0 0 (state_of (store_scenarioA 0)) (Document doc_empty))
       \<noteq> state_of (store_scenarioA 0)
   \<and> fst (fromJSON 0 0 (state_of (store_scenarioA 0)) (Document doc_no_offTimeline)) = False
   \<and> rd_timeline (ms_data (snd (fromJSON 0 0 (state_of (store_scenarioA 0))
        (Document doc_no_offTimeline))))
       = Some \<lparr>rt_items = Some [], rt_annotations = Some [], rt_zoom = 1, rt_scrollPosition = 0,
               rt_startDate = StartDate (ymd 2024 1 1), rt_lastBadgeValue = Some ''XD''\<rparr>"
  by (simp add: fromJSON_def state_of_def this_data_def doc_empty_def doc_no_offTimeline_def
      store_scenarioA_utc setHours0_def Date_utc_def toISODate_def msPerDay_def ymd_2024 Let_def)


end
